theory Spec2Isabelle
  imports Complex_Main
begin

section \<open>Python values\<close>

text \<open>
  The functions of the repository exchange dictionaries of untyped values. A value is
  modelled by \<open>pyval\<close>; a dictionary is an association list in insertion order, read
  with \<open>map_of\<close>. Floating-point numbers are idealised as reals (no rounding, no NaN,
  no infinities). A raised exception is the left summand of a sum type and carries the
  text that \<open>str(e)\<close> gives.
\<close>

datatype pyval =
    PNone
  | PBool bool
  | PInt int
  | PFloat real
  | PStr string
  | PList "pyval list"
  | PDict "(string \<times> pyval) list"

datatype error =
    AttributeError string
  | TypeError string
  | IndexError string
  | KeyError string
  | ValueError string

fun str_of_error :: "error \<Rightarrow> string" where
  "str_of_error (AttributeError m) = m"
| "str_of_error (TypeError m) = m"
| "str_of_error (IndexError m) = m"
| "str_of_error (KeyError m) = m"
| "str_of_error (ValueError m) = m"

fun truthy :: "pyval \<Rightarrow> bool" where
  "truthy PNone = False"
| "truthy (PBool b) = b"
| "truthy (PInt i) = (i \<noteq> 0)"
| "truthy (PFloat r) = (r \<noteq> 0)"
| "truthy (PStr s) = (s \<noteq> [])"
| "truthy (PList xs) = (xs \<noteq> [])"
| "truthy (PDict d) = (d \<noteq> [])"

fun type_name :: "pyval \<Rightarrow> string" where
  "type_name PNone = ''NoneType''"
| "type_name (PBool b) = ''bool''"
| "type_name (PInt i) = ''int''"
| "type_name (PFloat r) = ''float''"
| "type_name (PStr s) = ''str''"
| "type_name (PList xs) = ''list''"
| "type_name (PDict d) = ''dict''"

definition no_attribute :: "pyval \<Rightarrow> string \<Rightarrow> error" where
  "no_attribute v a =
     AttributeError ([CHR 0x27] @ type_name v @ [CHR 0x27] @ '' object has no attribute ''
                     @ [CHR 0x27] @ a @ [CHR 0x27])"

text \<open>\<open>d.get(k, default)\<close> on a dictionary.\<close>

definition dict_get :: "(string \<times> pyval) list \<Rightarrow> string \<Rightarrow> pyval \<Rightarrow> pyval" where
  "dict_get d k dflt = (case map_of d k of None \<Rightarrow> dflt | Some v \<Rightarrow> v)"

text \<open>\<open>v.get(k, default)\<close> on any value: only a dictionary has the method.\<close>

fun py_get :: "pyval \<Rightarrow> string \<Rightarrow> pyval \<Rightarrow> error + pyval" where
  "py_get (PDict d) k dflt = Inr (dict_get d k dflt)"
| "py_get v k dflt = Inl (no_attribute v ''get'')"

fun is_dict :: "pyval \<Rightarrow> bool" where
  "is_dict (PDict d) = True"
| "is_dict v = False"

text \<open>\<open>x or y\<close>.\<close>

definition py_or :: "pyval \<Rightarrow> pyval \<Rightarrow> pyval" where
  "py_or x y = (if truthy x then x else y)"

text \<open>The number a value stands for in an ordering comparison with an integer, if any.\<close>

fun num_of :: "pyval \<Rightarrow> real option" where
  "num_of (PBool b) = Some (if b then 1 else 0)"
| "num_of (PInt i) = Some (of_int i)"
| "num_of (PFloat r) = Some r"
| "num_of v = None"

definition not_supported :: "string \<Rightarrow> pyval \<Rightarrow> error" where
  "not_supported oper v =
     TypeError ([CHR 0x27] @ oper @ [CHR 0x27] @ '' not supported between instances of ''
                @ [CHR 0x27] @ type_name v @ [CHR 0x27] @ '' and '' @ [CHR 0x27] @ ''int'' @ [CHR 0x27])"

text \<open>\<open>v > n\<close> and \<open>v >= n\<close> for an integer literal \<open>n\<close>.\<close>

definition py_gt :: "pyval \<Rightarrow> int \<Rightarrow> error + bool" where
  "py_gt v n = (case num_of v of None \<Rightarrow> Inl (not_supported ''>'' v) | Some x \<Rightarrow> Inr (x > of_int n))"

definition py_ge :: "pyval \<Rightarrow> int \<Rightarrow> error + bool" where
  "py_ge v n = (case num_of v of None \<Rightarrow> Inl (not_supported ''>='' v) | Some x \<Rightarrow> Inr (x \<ge> of_int n))"

section \<open>Strings\<close>

text \<open>
  A Python string is a sequence of code points. The embedding covers the code points
  below 256 (Latin-1), one \<open>char\<close> each. On these, \<open>str.isspace\<close>, \<open>str.lower\<close> and the
  regular-expression classes \<open>\s\<close>, \<open>\d\<close> and \<open>[A-Z]\<close> are as CPython 3 has them.
  \<open>str.upper\<close> sends U+00DF to \<open>SS\<close>; it sends U+00B5 and U+00FF to code points
  above 255, which the embedding cannot hold and leaves in place: neither they nor their
  images are ASCII letters or digits.
\<close>

definition cp :: "char \<Rightarrow> nat" where
  "cp c = of_char c"

definition isspace :: "char \<Rightarrow> bool" where
  "isspace c = ((9 \<le> cp c \<and> cp c \<le> 13) \<or> (28 \<le> cp c \<and> cp c \<le> 32) \<or> cp c = 133 \<or> cp c = 160)"

definition lower_char :: "char \<Rightarrow> char" where
  "lower_char c =
     (if (65 \<le> cp c \<and> cp c \<le> 90) \<or> (192 \<le> cp c \<and> cp c \<le> 222 \<and> cp c \<noteq> 215)
      then char_of (cp c + 32) else c)"

definition upper_char :: "char \<Rightarrow> char" where
  "upper_char c =
     (if (97 \<le> cp c \<and> cp c \<le> 122) \<or> (224 \<le> cp c \<and> cp c \<le> 254 \<and> cp c \<noteq> 247)
      then char_of (cp c - 32) else c)"

definition lower :: "string \<Rightarrow> string" where
  "lower s = map lower_char s"

definition upper :: "string \<Rightarrow> string" where
  "upper s = concat (map (\<lambda>c. if cp c = 223 then ''SS'' else [upper_char c]) s)"

definition strip :: "string \<Rightarrow> string" where
  "strip s = rev (dropWhile isspace (rev (dropWhile isspace s)))"

fun startswith :: "string \<Rightarrow> string \<Rightarrow> bool" where
  "startswith s [] = True"
| "startswith [] (p # ps) = False"
| "startswith (c # cs) (p # ps) = (c = p \<and> startswith cs ps)"

text \<open>\<open>sub in s\<close>.\<close>

fun contains :: "string \<Rightarrow> string \<Rightarrow> bool" where
  "contains [] sub = (sub = [])"
| "contains (c # cs) sub = (startswith (c # cs) sub \<or> contains cs sub)"

text \<open>\<open>sep.join(xs)\<close>.\<close>

fun join :: "string \<Rightarrow> string list \<Rightarrow> string" where
  "join sep [] = []"
| "join sep [x] = x"
| "join sep (x # y # ys) = x @ sep @ join sep (y # ys)"

section \<open>Technical contradiction analyzer (core/market\_contra.py)\<close>

text \<open>
  \<open>np.convolve(data, np.ones(window), "valid") / window\<close>. NumPy rejects an empty
  operand, swaps the operands when the kernel is the longer one, and returns
  \<open>max(M, N) - min(M, N) + 1\<close> entries.
\<close>

definition moving_average :: "real list \<Rightarrow> nat \<Rightarrow> error + real list" where
  "moving_average data window =
     (if data = [] then Inl (ValueError ''a cannot be empty'')
      else if window = 0 then Inl (ValueError ''v cannot be empty'')
      else if window \<le> length data
      then Inr (map (\<lambda>k. sum_list (take window (drop k data)) / real window)
                    [0 ..< length data - window + 1])
      else Inr (replicate (window - length data + 1) (sum_list data / real window)))"

text \<open>\<open>np.diff\<close>: the differences of neighbours.\<close>

fun diff :: "real list \<Rightarrow> real list" where
  "diff (x # y # ys) = (y - x) # diff (y # ys)"
| "diff xs = []"

text \<open>
  \<open>compute_rsi\<close>; every caller leaves \<open>period\<close> at its default 14 (for \<open>period = 0\<close>
  NumPy divides by zero into NaN, which is outside the model).
\<close>

definition compute_rsi :: "real list \<Rightarrow> nat \<Rightarrow> real" where
  "compute_rsi data period =
     (let deltas = diff data in
      if length deltas < period then 50
      else
        let seed = take period deltas;
            up = sum_list (filter (\<lambda>d. d \<ge> 0) seed) / real period;
            down = - sum_list (filter (\<lambda>d. d < 0) seed) / real period;
            rs = (if down \<noteq> 0 then up / down else 0)
        in 100 - 100 / (1 + rs))"

text \<open>\<open>np.mean\<close> of a non-empty list.\<close>

definition mean :: "real list \<Rightarrow> real" where
  "mean xs = sum_list xs / real (length xs)"

text \<open>
  \<open>contradiction_score\<close>. On an empty list \<open>np.mean\<close> only warns, and
  \<open>prices[-1]\<close> then raises IndexError. With 20 or more prices the moving average is
  defined and non-empty, so its last entry exists.
\<close>

definition contradiction_score :: "real list \<Rightarrow> string \<Rightarrow> error + (string \<times> pyval) list" where
  "contradiction_score prices announcement_type =
     (case (if length prices \<ge> 20
            then (case moving_average prices 20 of
                    Inl e \<Rightarrow> Inl e
                  | Inr ms \<Rightarrow> if ms = [] then Inl (IndexError ''index -1 is out of bounds'')
                              else Inr (last ms))
            else Inr (mean prices)) of
        Inl e \<Rightarrow> Inl e
      | Inr ma20 \<Rightarrow>
          let rsi = (if length prices > 15 then compute_rsi prices 14 else 50) in
          if prices = [] then Inl (IndexError ''list index out of range'')
          else
            let last_price = last prices;
                score0 = (0::int);
                score1 = (if announcement_type = ''positive'' \<and> last_price < ma20
                          then score0 + 1 else score0);
                score2 = (if announcement_type = ''negative'' \<and> last_price > ma20
                          then score1 + 1 else score1);
                score3 = (if (rsi > 70 \<and> announcement_type = ''positive'')
                             \<or> (rsi < 30 \<and> announcement_type = ''negative'')
                          then score2 + 1 else score2)
            in Inr [(''ma20'', PFloat ma20), (''rsi'', PFloat rsi),
                    (''contradiction_score'', PInt score3)])"


section \<open>Regular expressions\<close>

text \<open>
  The patterns of the repository are sequences of single-character classes, each taken
  once, optionally (the tail of a counted repetition \<open>{m,n}\<close>) or any number of times,
  with \<open>$\<close> at the end of some. \<open>match_here\<close> says whether a pattern matches some prefix
  of the text; like the backtracking matcher of \<open>re\<close>, it tries every way to split.
  \<open>$\<close> holds at the end of the text and just before a final line feed. The leading \<open>^\<close>
  of the patterns given to \<open>re.match\<close> is implied by \<open>re.match\<close> and not written.
\<close>

datatype cclass =
    Lit char
  | Space
  | Digit
  | Ranges "(char \<times> char) list"

datatype atom = One cclass | Opt cclass | Star cclass | Dollar

fun in_class :: "cclass \<Rightarrow> char \<Rightarrow> bool" where
  "in_class (Lit a) c = (c = a)"
| "in_class Space c = isspace c"
| "in_class Digit c = (48 \<le> cp c \<and> cp c \<le> 57)"
| "in_class (Ranges rs) c = list_ex (\<lambda>(lo, hi). cp lo \<le> cp c \<and> cp c \<le> cp hi) rs"

text \<open>With \<open>re.IGNORECASE\<close> a character also matches through its lower or upper case.\<close>

definition class_match :: "bool \<Rightarrow> cclass \<Rightarrow> char \<Rightarrow> bool" where
  "class_match ic cl c =
     (in_class cl c \<or> (ic \<and> (in_class cl (lower_char c) \<or> in_class cl (upper_char c))))"

fun match_here :: "bool \<Rightarrow> atom list \<Rightarrow> string \<Rightarrow> bool" where
  "match_here ic [] s = True"
| "match_here ic (Dollar # as) s = ((s = [] \<or> s = [CHR 0x0A]) \<and> match_here ic as s)"
| "match_here ic (One cl # as) [] = False"
| "match_here ic (One cl # as) (c # cs) = (class_match ic cl c \<and> match_here ic as cs)"
| "match_here ic (Opt cl # as) [] = match_here ic as []"
| "match_here ic (Opt cl # as) (c # cs) =
     ((class_match ic cl c \<and> match_here ic as cs) \<or> match_here ic as (c # cs))"
| "match_here ic (Star cl # as) [] = match_here ic as []"
| "match_here ic (Star cl # as) (c # cs) =
     ((class_match ic cl c \<and> match_here ic (Star cl # as) cs) \<or> match_here ic as (c # cs))"

text \<open>\<open>bool(re.match(p, s))\<close> and \<open>bool(re.search(p, s))\<close>.\<close>

definition re_match :: "bool \<Rightarrow> atom list \<Rightarrow> string \<Rightarrow> bool" where
  "re_match ic p s = match_here ic p s"

fun re_search :: "bool \<Rightarrow> atom list \<Rightarrow> string \<Rightarrow> bool" where
  "re_search ic p [] = match_here ic p []"
| "re_search ic p (c # cs) = (match_here ic p (c # cs) \<or> re_search ic p cs)"

definition lit :: "string \<Rightarrow> atom list" where
  "lit s = map (\<lambda>c. One (Lit c)) s"

definition times :: "nat \<Rightarrow> cclass \<Rightarrow> atom list" where
  "times n cl = replicate n (One cl)"

definition between :: "nat \<Rightarrow> nat \<Rightarrow> cclass \<Rightarrow> atom list" where
  "between m n cl = replicate m (One cl) @ replicate (n - m) (Opt cl)"

definition plus_of :: "cclass \<Rightarrow> atom list" where
  "plus_of cl = [One cl, Star cl]"

abbreviation upper_AZ :: cclass where
  "upper_AZ \<equiv> Ranges [(CHR ''A'', CHR ''Z'')]"

abbreviation digit_09 :: cclass where
  "digit_09 \<equiv> Ranges [(CHR ''0'', CHR ''9'')]"

abbreviation upper_AZ_09 :: cclass where
  "upper_AZ_09 \<equiv> Ranges [(CHR ''A'', CHR ''Z''), (CHR ''0'', CHR ''9'')]"

section \<open>Identifier validators (core/registry\_checks.py, core/verifiers.py)\<close>

definition LEI_RE :: "atom list" where
  "LEI_RE = times 20 upper_AZ_09 @ [Dollar]"

definition ISIN_RE :: "atom list" where
  "ISIN_RE = times 2 upper_AZ @ times 9 upper_AZ_09 @ times 1 digit_09 @ [Dollar]"

text \<open>Compiled with \<open>re.IGNORECASE\<close>.\<close>

definition CIN_RE :: "atom list" where
  "CIN_RE = times 1 (Ranges [(CHR ''L'', CHR ''L''), (CHR ''U'', CHR ''U''),
                            (CHR ''A'', CHR ''A''), (CHR ''P'', CHR ''P'')])
            @ times 5 digit_09 @ times 2 upper_AZ @ times 4 digit_09
            @ times 3 upper_AZ @ times 6 digit_09 @ [Dollar]"

definition SEBI_ID_RE :: "atom list" where
  "SEBI_ID_RE = between 4 20 (Ranges [(CHR ''0'', CHR ''9''), (CHR ''A'', CHR ''Z''),
                                       (CHR ''-'', CHR ''-'')]) @ [Dollar]"

text \<open>
  The outcome of \<open>requests.get\<close>: a response with its status code and what \<open>resp.json()\<close>
  gives (a value, or the text of the exception it raises), or the text of the exception
  that the request raises. The network is a function from the URL to such an outcome.
\<close>

datatype http_result = Response int "string + pyval" | Raised string

definition validate_lei :: "(string \<Rightarrow> http_result) \<Rightarrow> string \<Rightarrow> (string \<times> pyval) list" where
  "validate_lei requests_get lei0 =
     (let lei = upper (strip lei0);
          ok = re_match False LEI_RE lei;
          info = [(''input'', PStr lei), (''pattern_valid'', PBool ok)]
      in if ok
         then (case requests_get (''https://api.gleif.org/api/v1/lei-records/'' @ lei) of
                 Response status body \<Rightarrow>
                   if status = 200
                   then (case body of
                           Inr js \<Rightarrow> info @ [(''gleif'', js)]
                         | Inl msg \<Rightarrow> info @ [(''gleif_error'', PStr msg)])
                   else info
               | Raised msg \<Rightarrow> info @ [(''gleif_error'', PStr msg)])
         else info)"

definition validate_isin :: "string \<Rightarrow> (string \<times> pyval) list" where
  "validate_isin isin0 =
     (let isin = upper (strip isin0); ok = re_match False ISIN_RE isin
      in [(''input'', PStr isin), (''pattern_valid'', PBool ok)])"

definition validate_cin :: "string \<Rightarrow> (string \<times> pyval) list" where
  "validate_cin cin0 =
     (let cin = upper (strip cin0); ok = re_match True CIN_RE cin
      in [(''input'', PStr cin), (''pattern_valid'', PBool ok)])"

definition validate_sebi_id :: "string \<Rightarrow> (string \<times> pyval) list" where
  "validate_sebi_id sebi_id =
     (let sid = upper (strip sebi_id); ok = re_match False SEBI_ID_RE sid
      in [(''input'', PStr sid), (''pattern_valid'', PBool ok)])"

text \<open>\<open>bulk_registry_check\<close>; the identifiers are strings, as \<open>extract_identifiers\<close> gives them.\<close>

definition bulk_registry_check ::
  "(string \<Rightarrow> http_result) \<Rightarrow> (string \<times> string) list \<Rightarrow> (string \<times> pyval) list" where
  "bulk_registry_check requests_get identifiers =
     (case map_of identifiers ''lei'' of None \<Rightarrow> []
      | Some v \<Rightarrow> [(''lei'', PDict (validate_lei requests_get v))])
     @ (case map_of identifiers ''isin'' of None \<Rightarrow> []
        | Some v \<Rightarrow> [(''isin'', PDict (validate_isin v))])
     @ (case map_of identifiers ''cin'' of None \<Rightarrow> []
        | Some v \<Rightarrow> [(''cin'', PDict (validate_cin v))])
     @ (case map_of identifiers ''sebi'' of None \<Rightarrow> []
        | Some v \<Rightarrow> [(''sebi'', PDict (validate_sebi_id v))])"

text \<open>
  core/verifiers.py: \<open>LEI_PATTERN\<close>, compiled with \<open>re.I\<close>, and \<open>valid_lei\<close>, which is
  given the raw text. Case-insensitive matching reaches beyond Latin-1, so here a text is
  the list of its Unicode code points (\<open>codepoints\<close> embeds a Latin-1 string).

  With \<open>re.I\<close> a code point matches a class of ASCII ranges when it lies in one of the
  ranges or when one of its ASCII case variants does. An ASCII letter has its other case;
  U+0130 and U+0131 (dotted capital and dotless small i) have \<open>i\<close> and \<open>I\<close>, U+017F (long
  s) has \<open>s\<close> and \<open>S\<close>, U+212A (Kelvin sign) has \<open>k\<close> and \<open>K\<close>; no other code point has
  any. The pattern is a sequence of such classes, each taken once, and \<open>$\<close>.
\<close>

definition codepoints :: "string \<Rightarrow> nat list" where
  "codepoints s = map cp s"

definition ascii_case_variants :: "nat \<Rightarrow> nat list" where
  "ascii_case_variants n =
     (if 65 \<le> n \<and> n \<le> 90 then [n + 32]
      else if 97 \<le> n \<and> n \<le> 122 then [n - 32]
      else if n = 0x130 \<or> n = 0x131 then [0x69, 0x49]
      else if n = 0x17F then [0x73, 0x53]
      else if n = 0x212A then [0x6B, 0x4B]
      else [])"

definition in_ranges :: "(char \<times> char) list \<Rightarrow> nat \<Rightarrow> bool" where
  "in_ranges rs n = list_ex (\<lambda>(lo, hi). cp lo \<le> n \<and> n \<le> cp hi) rs"

definition ranges_match_ignorecase :: "(char \<times> char) list \<Rightarrow> nat \<Rightarrow> bool" where
  "ranges_match_ignorecase rs n =
     (in_ranges rs n \<or> list_ex (in_ranges rs) (ascii_case_variants n))"

datatype uatom = UOne "(char \<times> char) list" | UDollar

fun umatch_here :: "uatom list \<Rightarrow> nat list \<Rightarrow> bool" where
  "umatch_here [] s = True"
| "umatch_here (UDollar # as) s = ((s = [] \<or> s = [0x0A]) \<and> umatch_here as s)"
| "umatch_here (UOne rs # as) [] = False"
| "umatch_here (UOne rs # as) (n # ns) = (ranges_match_ignorecase rs n \<and> umatch_here as ns)"

definition LEI_PATTERN :: "uatom list" where
  "LEI_PATTERN = replicate 18 (UOne [(CHR ''0'', CHR ''9''), (CHR ''A'', CHR ''Z'')])
                 @ replicate 2 (UOne [(CHR ''0'', CHR ''9'')]) @ [UDollar]"

definition valid_lei :: "nat list \<Rightarrow> bool" where
  "valid_lei text = umatch_here LEI_PATTERN text"

section \<open>Lexical hype scorer (core/fraud\_detection.py)\<close>

definition HYPE_WORDS :: "atom list list" where
  "HYPE_WORDS =
     [lit ''sure shot'', lit ''guaranteed'', lit ''x'' @ [Star Space] @ lit ''returns'',
      lit ''multibagger'', lit ''inside info'', lit ''firm allotment'', lit ''pre-ipo'',
      lit ''pump'', lit ''target'' @ [Star Space] @ plus_of Digit]"

text \<open>The loop of \<open>hype_score\<close> over the patterns, with the running score.\<close>

fun hype_loop :: "atom list list \<Rightarrow> string \<Rightarrow> int \<Rightarrow> int" where
  "hype_loop [] t score = score"
| "hype_loop (w # ws) t score = hype_loop ws t (if re_search False w t then score + 10 else score)"

definition hype_score :: "string \<Rightarrow> int" where
  "hype_score text = (let t = lower text in min 100 (hype_loop HYPE_WORDS t 0))"

definition tip_verdict :: "string \<Rightarrow> bool \<Rightarrow> (string \<times> pyval) list" where
  "tip_verdict text ta_contradiction =
     (let hs = hype_score text in
      if hs \<ge> 30 \<or> ta_contradiction
      then [(''risk'', PStr ''high''), (''score'', PInt (max hs 70)),
            (''reasons'', PList [PStr ''Hype words or TA contradiction''])]
      else if hs \<ge> 10
      then [(''risk'', PStr ''medium''), (''score'', PInt hs),
            (''reasons'', PList [PStr ''Some hype indicators''])]
      else [(''risk'', PStr ''low''), (''score'', PInt hs),
            (''reasons'', PList [PStr ''No strong hype indicators''])])"

section \<open>Numeric anomaly detector (core/anomaly\_detector.py)\<close>

text \<open>
  The numbers of a series are NumPy floats: their arithmetic rounds, and has infinities
  and NaN. The detector is therefore modelled over an arbitrary type \<open>'f\<close> of numbers,
  with the operations it uses as parameters about which nothing is assumed: the mean of a
  series, subtraction, division (which may give a value or raise, with an error of type
  \<open>'e\<close>), absolute value, the comparison \<open>>\<close> of two numbers and of a Python integer with
  a number, and the truth value of a number (\<open>if mean\<close>).
\<close>

record ('f, 'e) np_ops =
  np_mean :: "'f list \<Rightarrow> 'f"
  np_sub :: "'f \<Rightarrow> 'f \<Rightarrow> 'f"
  np_div :: "'f \<Rightarrow> 'f \<Rightarrow> 'e + 'f"
  np_abs :: "'f \<Rightarrow> 'f"
  np_gt :: "'f \<Rightarrow> 'f \<Rightarrow> bool"
  np_int_gt :: "int \<Rightarrow> 'f \<Rightarrow> bool"
  np_bool :: "'f \<Rightarrow> bool"

text \<open>The values of the result: \<open>None\<close>, a boolean, a Python integer or a number.\<close>

datatype 'f npval = NNone | NBool bool | NInt int | NFloat 'f

text \<open>
  A series holds numbers and missing values (\<open>None\<close>, NaN), which
  \<open>pd.Series(series).dropna()\<close> removes.
\<close>

fun dropna :: "'f option list \<Rightarrow> 'f list" where
  "dropna [] = []"
| "dropna (None # xs) = dropna xs"
| "dropna (Some x # xs) = x # dropna xs"

text \<open>\<open>abs(deviation) > threshold\<close>, for the integer 0 of the guard or a computed number.\<close>

fun abs_gt :: "('f, 'e) np_ops \<Rightarrow> 'f npval \<Rightarrow> 'f \<Rightarrow> bool" where
  "abs_gt np (NFloat d) threshold = np_gt np (np_abs np d) threshold"
| "abs_gt np (NInt i) threshold = np_int_gt np \<bar>i\<bar> threshold"
| "abs_gt np v threshold = False"

definition detect_numeric_anomalies ::
  "('f, 'e) np_ops \<Rightarrow> 'f option list \<Rightarrow> 'f \<Rightarrow> 'e + (string \<times> 'f npval) list" where
  "detect_numeric_anomalies np series threshold =
     (let s = dropna series in
      if length s < 2
      then Inr [(''anomaly'', NBool False),
                (''latest'', if s \<noteq> [] then NFloat (last s) else NNone)]
      else
        let m = np_mean np (butlast s);
            latest = last s
        in case (if np_bool np m
                 then (case np_div np (np_sub np latest m) m of
                         Inl e \<Rightarrow> Inl e
                       | Inr q \<Rightarrow> Inr (NFloat q))
                 else Inr (NInt 0)) of
             Inl e \<Rightarrow> Inl e
           | Inr deviation \<Rightarrow>
               Inr [(''latest'', NFloat latest), (''mean'', NFloat m),
                    (''deviation'', deviation),
                    (''anomaly'', NBool (abs_gt np deviation threshold))])"

section \<open>Official-source verifier and URL hygiene (core/sebi\_scraper.py, ui/components/helpers.py)\<close>

text \<open>\<open>verify_against_official_sources\<close> ignores its arguments.\<close>

definition verify_against_official_sources :: "string \<Rightarrow> string \<Rightarrow> (string \<times> pyval) list" where
  "verify_against_official_sources text_or_title company_hint =
     [(''verdict'', PStr ''unverified''),
      (''reason'', PStr ''No official match via lightweight search''),
      (''links'', PList [])]"

text \<open>
  The regulator map is read from config/regulator\_map.json, which is not part of the
  sources; it is a parameter here, in the shape \<open>suggest_official_sources\<close> reads it: for
  each domain its keywords and its regulators, each with a name and a URL. A missing or
  unreadable file is the empty map.
\<close>

record regulator =
  reg_name :: string
  reg_url :: string

record domain_cfg =
  cfg_keywords :: "string list"
  cfg_regulators :: "regulator list"

text \<open>The inner loop over the regulators of one domain, with \<open>hits\<close> and \<open>seen\<close>.\<close>

fun add_regulators ::
  "string \<Rightarrow> regulator list \<Rightarrow> (string \<times> pyval) list list \<times> string list
   \<Rightarrow> (string \<times> pyval) list list \<times> string list" where
  "add_regulators domain [] (hits, seen) = (hits, seen)"
| "add_regulators domain (r # rs) (hits, seen) =
     add_regulators domain rs
       (if reg_url r \<notin> set seen
        then (hits @ [[(''domain'', PStr domain), (''name'', PStr (reg_name r)),
                       (''url'', PStr (reg_url r))]],
              seen @ [reg_url r])
        else (hits, seen))"

fun suggest_loop ::
  "(string \<times> domain_cfg) list \<Rightarrow> string \<Rightarrow> (string \<times> pyval) list list \<times> string list
   \<Rightarrow> (string \<times> pyval) list list \<times> string list" where
  "suggest_loop [] t st = st"
| "suggest_loop ((domain, cfg) # rm) t st =
     suggest_loop rm t
       (if list_ex (\<lambda>k. contains t (lower k)) (cfg_keywords cfg)
        then add_regulators domain (cfg_regulators cfg) st else st)"

definition suggest_official_sources ::
  "(string \<times> domain_cfg) list \<Rightarrow> string \<Rightarrow> (string \<times> pyval) list list" where
  "suggest_official_sources rm text = (let t = lower text in fst (suggest_loop rm t ([], [])))"

text \<open>\<open>v[0]\<close> on a value.\<close>

fun py_index0 :: "pyval \<Rightarrow> error + pyval" where
  "py_index0 (PList (x # xs)) = Inr x"
| "py_index0 (PList []) = Inl (IndexError ''list index out of range'')"
| "py_index0 (PStr (c # cs)) = Inr (PStr [c])"
| "py_index0 (PStr []) = Inl (IndexError ''string index out of range'')"
| "py_index0 (PDict d) = Inl (KeyError ''0'')"
| "py_index0 v = Inl (TypeError ([CHR 0x27] @ type_name v @ [CHR 0x27] @ '' object is not subscriptable''))"

definition opt_str :: "string option \<Rightarrow> pyval" where
  "opt_str l = (case l of None \<Rightarrow> PNone | Some s \<Rightarrow> PStr s)"

text \<open>
  \<open>verify_announcement\<close>. The clock (\<open>int(time.time())\<close>) and the digest
  (\<open>hash_payload\<close>, SHA-256 over the JSON text) are parameters, as is the regulator map.
  The arrow U+2192 in the \<open>lookups\<close> text of the demo branch is beyond Latin-1 and written
  \<open>->\<close>.
\<close>

definition verify_announcement ::
  "(string \<times> domain_cfg) list \<Rightarrow> int \<Rightarrow> (pyval \<Rightarrow> string)
   \<Rightarrow> string \<Rightarrow> string \<Rightarrow> string option \<Rightarrow> error + (string \<times> pyval) list" where
  "verify_announcement rm now hash_payload title company_hint link =
     (let text = strip (join '' '' [title, company_hint, (case link of None \<Rightarrow> [] | Some l \<Rightarrow> l)]) in
      if contains (lower text) ''novapharm'' \<and> contains (lower text) ''fda''
      then
        let res = [(''verdict'', PStr ''verified''),
                   (''reasons'', PList [PStr ''Matched Pharma domain and FDA approval trigger (demo)'']),
                   (''references'', PList [PStr ''https://www.fda.gov/drugs/drug-approvals-and-databases'']),
                   (''lookups'', PList [PStr ''domain=pharma -> FDA/CDSCO/EMA''])];
            evidence = [(''title'', PStr title), (''company_hint'', PStr company_hint),
                        (''link'', opt_str link), (''official'', PDict res), (''ts'', PInt now)];
            evidence' = evidence @ [(''hash'', PStr (hash_payload (PDict evidence)))]
        in (case py_index0 (dict_get res ''reasons'' PNone) of
              Inl e \<Rightarrow> Inl e
            | Inr reason \<Rightarrow>
                Inr [(''verdict'', dict_get res ''verdict'' PNone), (''reason'', reason),
                     (''evidence'', PDict evidence')])
      else
        let res = verify_against_official_sources title company_hint;
            verdict = py_or (dict_get res ''verdict'' PNone) (PStr ''unverified'');
            reasons = py_or (dict_get res ''reasons'' PNone)
                            (PList [dict_get res ''reason'' (PStr ''No official record matched'')]);
            references = dict_get res ''references'' (PList []);
            suggestions = (if verdict = PStr ''unverified'' \<or> verdict = PNone
                           then suggest_official_sources rm text else []);
            (verdict', reasons', references') =
               (if (verdict = PStr ''unverified'' \<or> verdict = PNone) \<and> suggestions \<noteq> []
                then (PStr ''needs_official_link'',
                      PList [PStr ''No exact official match found; check suggested regulators based on domain keywords.''],
                      PList (map (\<lambda>s. dict_get s ''url'' PNone) suggestions))
                else (verdict, reasons, references));
            evidence = [(''title'', PStr title), (''company_hint'', PStr company_hint),
                        (''link'', opt_str link),
                        (''official'', PDict [(''verdict'', verdict'), (''reasons'', reasons'),
                                              (''references'', references')]),
                        (''ts'', PInt now)];
            evidence' = evidence @ [(''hash'', PStr (hash_payload (PDict evidence)))]
        in (case py_index0 reasons' of
              Inl e \<Rightarrow> Inl e
            | Inr reason \<Rightarrow>
                Inr [(''verdict'', verdict'), (''reason'', reason), (''evidence'', PDict evidence')]))"

text \<open>
  \<open>url_domain\<close>: the network location that \<open>urlparse\<close> of the standard library finds
  (a parameter; \<open>None\<close> when it raises), lowercased, or the empty string.
\<close>

definition url_domain :: "(string \<Rightarrow> string option) \<Rightarrow> string \<Rightarrow> string" where
  "url_domain urlparse_netloc u =
     (case urlparse_netloc u of None \<Rightarrow> [] | Some n \<Rightarrow> lower n)"

text \<open>
  The VirusTotal step of \<open>check_document_link\<close>: from the verdict and reasons so far to
  the new ones, or the exception that a malformed report raises.
\<close>

fun vt_step :: "pyval \<Rightarrow> string \<times> string list \<Rightarrow> error + string \<times> string list" where
  "vt_step (PDict d) (verdict, reasons) =
     (if \<not> truthy (dict_get d ''error'' PNone)
      then
        (case py_get (dict_get d ''data'' (PDict [])) ''attributes'' (PDict []) of
           Inl e \<Rightarrow> Inl e
         | Inr attrs \<Rightarrow>
        (case py_get attrs ''last_analysis_stats'' (PDict []) of
           Inl e \<Rightarrow> Inl e
         | Inr cats \<Rightarrow>
        (case py_get cats ''malicious'' (PInt 0) of
           Inl e \<Rightarrow> Inl e
         | Inr m \<Rightarrow>
        (case py_gt m 0 of
           Inl e \<Rightarrow> Inl e
         | Inr b \<Rightarrow>
             if b then Inr (''risky'', reasons @ [''VirusTotal flagged domain as malicious''])
             else Inr (verdict, reasons)))))
      else Inr (verdict, reasons))"
| "vt_step v (verdict, reasons) = Inr (verdict, reasons)"

text \<open>\<open>isinstance(us, dict) and us.get("error")\<close>.\<close>

fun has_error :: "pyval \<Rightarrow> bool" where
  "has_error (PDict d) = truthy (dict_get d ''error'' PNone)"
| "has_error v = False"

text \<open>
  \<open>check_document_link\<close>. \<open>vt_domain_report\<close> and \<open>urlscan_submit\<close> depend on the network
  and on API keys; both catch their own exceptions and return a value, so they are
  parameters from the domain (the URL) to the value returned.
\<close>

definition check_document_link ::
  "(string \<Rightarrow> string option) \<Rightarrow> (string \<Rightarrow> pyval) \<Rightarrow> (string \<Rightarrow> pyval) \<Rightarrow> string
   \<Rightarrow> (string \<times> pyval) list" where
  "check_document_link urlparse_netloc vt_domain_report urlscan_submit u =
     (if \<not> (startswith u ''http://'' \<or> startswith u ''https://'')
      then [(''verdict'', PStr ''invalid''), (''reasons'', PList [PStr ''Not a valid http(s) URL'']),
            (''references'', PList [])]
      else
        let domain = url_domain urlparse_netloc u;
            officialish = list_ex (\<lambda>x. contains domain x)
                            [''sebi'', ''nseindia'', ''bseindia'', ''gleif'', ''fda.gov'', ''cdsco''];
            st1 = (if officialish
                   then (''likely-official'', [''Domain looks official: '' @ domain])
                   else (''caution'', []));
            vt = (if domain \<noteq> [] then vt_domain_report domain
                  else PDict [(''error'', PStr ''no_domain'')])
        in case vt_step vt st1 of
             Inl e \<Rightarrow> [(''verdict'', PStr ''error''), (''reasons'', PList [PStr (str_of_error e)]),
                       (''references'', PList [PStr u])]
           | Inr (verdict, reasons) \<Rightarrow>
               let us = urlscan_submit u;
                   reasons' = (if has_error us then reasons @ [''URLScan not available'']
                               else reasons)
               in [(''verdict'', PStr verdict), (''reasons'', PList (map PStr reasons')),
                   (''references'', PList [PStr u])])"

section \<open>Evidence scorer (ui/pages/document\_verifier.py)\<close>

text \<open>
  A breakdown row is a dimension, a contribution and a justification. Each block of
  \<open>score_from_signals\<close> is a function from the signals to the rows it appends, or to the
  exception it raises when a signal does not have the type the block reads.
\<close>

type_synonym row = "string \<times> int \<times> string"

definition contribution :: "row \<Rightarrow> int" where
  "contribution r = fst (snd r)"

definition lookup_rows :: "(string \<times> pyval) list \<Rightarrow> error + row list" where
  "lookup_rows signals =
     (case py_get (dict_get signals ''lookup'' (PDict [])) ''found'' PNone of
        Inl e \<Rightarrow> Inl e
      | Inr found \<Rightarrow>
          if truthy found
          then Inr [(''Local Registry Match'', 20, ''Found in data/lookup.json'')]
          else Inr [(''Local Registry Match'', 0, ''No curated match'')])"

definition official_rows :: "(string \<times> pyval) list \<Rightarrow> error + row list" where
  "official_rows signals =
     (let off = py_or (dict_get signals ''official'' (PDict [])) (PDict []) in
      case py_get off ''verdict'' PNone of
        Inl e \<Rightarrow> Inl e
      | Inr verdict \<Rightarrow>
          if verdict = PStr ''verified''
          then Inr [(''Official Filing Match'', 30, ''Matched regulator/exchange via scraper'')]
          else if verdict = PStr ''needs_official_link''
          then Inr [(''Regulator Suggested'', 5, ''No exact match but regulators suggested'')]
          else Inr [(''Official Filing Match'', -5, ''Not found in official sources (light check)'')])"

definition url_rows :: "(string \<times> pyval) list \<Rightarrow> error + row list" where
  "url_rows signals =
     (let url_sig = py_or (dict_get signals ''url'' (PDict [])) (PDict []) in
      case py_get url_sig ''verdict'' PNone of
        Inl e \<Rightarrow> Inl e
      | Inr verdict \<Rightarrow>
          if verdict = PStr ''likely-official''
          then Inr [(''URL Domain Official-ish'', 10,
                     ''Domain looks official (e.g., sebi/nse/bse/gleif/fda/cdsco)'')]
          else if verdict = PStr ''risky''
          then Inr [(''URL Risk (VirusTotal)'', -40, ''Malicious indicators on domain'')]
          else if truthy url_sig
          then Inr [(''URL Scan Presence'', 2, ''URL was scanned / reachable'')]
          else Inr [])"

text \<open>The loop over \<open>id_sig.items()\<close> that collects \<open>ok\<close>.\<close>

fun valid_ids :: "(string \<times> pyval) list \<Rightarrow> string list" where
  "valid_ids [] = []"
| "valid_ids ((k, PDict d) # kvs) =
     (if truthy (dict_get d ''pattern_valid'' PNone) then upper k # valid_ids kvs
      else valid_ids kvs)"
| "valid_ids ((k, v) # kvs) = valid_ids kvs"

definition identifier_rows :: "(string \<times> pyval) list \<Rightarrow> error + row list" where
  "identifier_rows signals =
     (let id_sig = py_or (dict_get signals ''identifiers'' (PDict [])) (PDict []) in
      if truthy id_sig
      then (case id_sig of
              PDict d \<Rightarrow>
                let ok = valid_ids d in
                if ok \<noteq> []
                then Inr [(''Identifiers Valid'', 10, ''Valid pattern(s): '' @ join '', '' ok)]
                else Inr []
            | _ \<Rightarrow> Inl (no_attribute id_sig ''items''))
      else Inr [])"

definition text_rows :: "(string \<times> pyval) list \<Rightarrow> error + row list" where
  "text_rows signals =
     (case py_gt (dict_get signals ''text_len'' (PInt 0)) 40 of
        Inl e \<Rightarrow> Inl e
      | Inr long \<Rightarrow>
          if long then Inr [(''Text Extracted'', 5, ''OCR/Text extracted successfully'')]
          else Inr [(''Text Extracted'', -3, ''No/low extractable text'')])"

definition social_rows :: "(string \<times> pyval) list \<Rightarrow> error + row list" where
  "social_rows signals =
     (let soc = py_or (dict_get signals ''social'' (PDict [])) (PDict []) in
      case py_get soc ''label'' PNone of
        Inl e \<Rightarrow> Inl e
      | Inr label \<Rightarrow>
          if label = PStr ''legit''
          then Inr [(''Social Signal'', 5, ''Classified as legit'')]
          else if truthy soc
          then Inr [(''Social Signal'', -5, ''Classified as suspicious'')]
          else Inr [])"

definition anomaly_rows :: "(string \<times> pyval) list \<Rightarrow> error + row list" where
  "anomaly_rows signals =
     (let anom = py_or (dict_get signals ''anomaly'' (PDict [])) (PDict []) in
      case py_get anom ''any'' PNone of
        Inl e \<Rightarrow> Inl e
      | Inr flagged \<Rightarrow>
          if truthy flagged
          then Inr [(''Numeric Anomaly'', -12, ''Outlier vs history (demo rule)'')]
          else Inr [])"

definition contra_rows :: "(string \<times> pyval) list \<Rightarrow> error + row list" where
  "contra_rows signals =
     (let contra = py_or (dict_get signals ''contra'' (PDict [])) (PDict []) in
      case py_get contra ''contradiction_score'' (PInt 0) of
        Inl e \<Rightarrow> Inl e
      | Inr cs \<Rightarrow>
          (case py_ge cs 2 of
             Inl e \<Rightarrow> Inl e
           | Inr b \<Rightarrow>
               if b
               then Inr [(''Market Contradiction'', -8, ''Price/RSI contradicts positive claim'')]
               else Inr []))"

text \<open>The blocks in the order of the source; the first exception ends the call.\<close>

fun run_blocks ::
  "((string \<times> pyval) list \<Rightarrow> error + row list) list \<Rightarrow> (string \<times> pyval) list \<Rightarrow> row list
   \<Rightarrow> error + row list" where
  "run_blocks [] signals rows = Inr rows"
| "run_blocks (b # bs) signals rows =
     (case b signals of Inl e \<Rightarrow> Inl e | Inr new \<Rightarrow> run_blocks bs signals (rows @ new))"

definition score_from_signals :: "(string \<times> pyval) list \<Rightarrow> error + int \<times> row list" where
  "score_from_signals signals =
     (case run_blocks [lookup_rows, official_rows, url_rows, identifier_rows, text_rows,
                       social_rows, anomaly_rows, contra_rows]
                      signals [(''Baseline'', 50, ''Neutral baseline'')] of
        Inl e \<Rightarrow> Inl e
      | Inr rows \<Rightarrow>
          let total = sum_list (map contribution rows);
              total' = max 0 (min 100 total)
          in Inr (total', rows))"

section \<open>Auxiliary notions for the statements\<close>

text \<open>The two indicators as \<open>contradiction_score\<close> selects them.\<close>

definition ma20_of :: "real list \<Rightarrow> real" where
  "ma20_of prices =
     (if 20 \<le> length prices then sum_list (drop (length prices - 20) prices) / 20
      else mean prices)"

definition rsi_of :: "real list \<Rightarrow> real" where
  "rsi_of prices = (if 15 < length prices then compute_rsi prices 14 else 50)"

text \<open>
  Character classes in the words of the identifier grammars; the last two are on code
  points: an ASCII digit, and an ASCII letter or digit or one of the four code points
  that match an ASCII letter when case is ignored.
\<close>

definition is_upper_or_digit :: "char \<Rightarrow> bool" where
  "is_upper_or_digit c = ((65 \<le> cp c \<and> cp c \<le> 90) \<or> (48 \<le> cp c \<and> cp c \<le> 57))"

definition is_digit_point :: "nat \<Rightarrow> bool" where
  "is_digit_point n = (48 \<le> n \<and> n \<le> 57)"

definition is_alnum_point :: "nat \<Rightarrow> bool" where
  "is_alnum_point n = ((65 \<le> n \<and> n \<le> 90) \<or> (97 \<le> n \<and> n \<le> 122) \<or> (48 \<le> n \<and> n \<le> 57)
                       \<or> n = 0x130 \<or> n = 0x131 \<or> n = 0x17F \<or> n = 0x212A)"

text \<open>The \<open>pattern_valid\<close> entry of a validator's result.\<close>

definition pattern_valid_of :: "pyval \<Rightarrow> pyval option" where
  "pattern_valid_of v = (case v of PDict d \<Rightarrow> map_of d ''pattern_valid'' | _ \<Rightarrow> None)"

text \<open>The condition of \<open>check_document_link\<close> for an official-looking domain.\<close>

definition officialish :: "string \<Rightarrow> bool" where
  "officialish domain = list_ex (\<lambda>x. contains domain x)
                            [''sebi'', ''nseindia'', ''bseindia'', ''gleif'', ''fda.gov'', ''cdsco'']"

text \<open>The text that \<open>verify_announcement\<close> scans, and its demo condition.\<close>

definition announcement_text :: "string \<Rightarrow> string \<Rightarrow> string option \<Rightarrow> string" where
  "announcement_text title company_hint link =
     strip (join '' '' [title, company_hint, (case link of None \<Rightarrow> [] | Some l \<Rightarrow> l)])"

definition demo_override :: "string \<Rightarrow> bool" where
  "demo_override text = (contains (lower text) ''novapharm'' \<and> contains (lower text) ''fda'')"

text \<open>
  The signals the scorer can read without an exception: \<open>lookup\<close> is absent or a
  dictionary; \<open>official\<close>, \<open>url\<close>, \<open>identifiers\<close>, \<open>social\<close>, \<open>anomaly\<close> and
  \<open>contra\<close> are absent, empty (falsy) or dictionaries; \<open>text_len\<close> and the
  \<open>contradiction_score\<close> of \<open>contra\<close> are numbers. Then the conditions under which the
  optional rows are written, and three sample inputs.
\<close>

definition dict_or_falsy :: "pyval \<Rightarrow> bool" where
  "dict_or_falsy v = (is_dict v \<or> \<not> truthy v)"

definition signal :: "(string \<times> pyval) list \<Rightarrow> string \<Rightarrow> pyval" where
  "signal signals k = dict_get signals k (PDict [])"

definition contra_ok :: "pyval \<Rightarrow> bool" where
  "contra_ok v = (case v of
       PDict d \<Rightarrow> num_of (dict_get d ''contradiction_score'' (PInt 0)) \<noteq> None
     | _ \<Rightarrow> \<not> truthy v)"

definition well_typed_signals :: "(string \<times> pyval) list \<Rightarrow> bool" where
  "well_typed_signals s =
     (is_dict (signal s ''lookup'')
      \<and> dict_or_falsy (signal s ''official'')
      \<and> dict_or_falsy (signal s ''url'')
      \<and> dict_or_falsy (signal s ''identifiers'')
      \<and> num_of (dict_get s ''text_len'' (PInt 0)) \<noteq> None
      \<and> dict_or_falsy (signal s ''social'')
      \<and> dict_or_falsy (signal s ''anomaly'')
      \<and> contra_ok (signal s ''contra''))"

definition url_present :: "(string \<times> pyval) list \<Rightarrow> bool" where
  "url_present s = truthy (signal s ''url'')"

definition social_present :: "(string \<times> pyval) list \<Rightarrow> bool" where
  "social_present s = truthy (signal s ''social'')"

definition ids_valid :: "(string \<times> pyval) list \<Rightarrow> bool" where
  "ids_valid s = (case signal s ''identifiers'' of PDict d \<Rightarrow> valid_ids d \<noteq> [] | _ \<Rightarrow> False)"

definition anomaly_flagged :: "(string \<times> pyval) list \<Rightarrow> bool" where
  "anomaly_flagged s =
     (case signal s ''anomaly'' of PDict d \<Rightarrow> truthy (dict_get d ''any'' PNone) | _ \<Rightarrow> False)"

definition contradicted :: "(string \<times> pyval) list \<Rightarrow> bool" where
  "contradicted s =
     (case signal s ''contra'' of
        PDict d \<Rightarrow> (case num_of (dict_get d ''contradiction_score'' (PInt 0)) of
                     Some x \<Rightarrow> x \<ge> 2 | None \<Rightarrow> False)
      | _ \<Rightarrow> False)"

definition bare_signals :: "(string \<times> pyval) list" where
  "bare_signals =
     [(''lookup'', PDict [(''found'', PBool False), (''reason'', PStr ''no entity match'')]),
      (''url'', PDict []),
      (''official'', PDict [(''verdict'', PStr ''unverified''),
                            (''reason'', PStr ''No official match via lightweight search'')]),
      (''identifiers'', PDict []),
      (''text_len'', PInt 0),
      (''social'', PDict []),
      (''anomaly'', PDict []),
      (''contra'', PDict [])]"

definition full_signals :: "(string \<times> pyval) list" where
  "full_signals =
     [(''lookup'', PDict [(''found'', PBool True)]),
      (''url'', PDict [(''verdict'', PStr ''risky'')]),
      (''official'', PDict [(''verdict'', PStr ''needs_official_link'')]),
      (''identifiers'', PDict [(''lei'', PDict [(''input'', PStr ''LIPSUM1234567890ABCD''),
                                                (''pattern_valid'', PBool True)]),
                               (''isin'', PDict [(''input'', PStr ''X''),
                                                 (''pattern_valid'', PBool False)])]),
      (''text_len'', PInt 500),
      (''social'', PDict [(''label'', PStr ''suspicious'')]),
      (''anomaly'', PDict [(''any'', PBool True)]),
      (''contra'', PDict [(''contradiction_score'', PInt 2)])]"

definition rich_signals :: "(string \<times> pyval) list" where
  "rich_signals =
     [(''lookup'', PDict [(''found'', PBool True)]),
      (''url'', PDict [(''verdict'', PStr ''likely-official'')]),
      (''official'', PDict [(''verdict'', PStr ''verified'')]),
      (''identifiers'', PDict [(''lei'', PDict [(''input'', PStr ''LIPSUM1234567890ABCD''),
                                                (''pattern_valid'', PBool True)])]),
      (''text_len'', PInt 500),
      (''social'', PDict [(''label'', PStr ''legit'')]),
      (''anomaly'', PDict [(''any'', PBool False)]),
      (''contra'', PDict [(''contradiction_score'', PInt 1)])]"

text \<open>
  Sample operations for the anomaly detector: exact arithmetic on the reals, with a
  division that raises on a zero divisor, and the same with a division that always raises.
\<close>

definition exact_ops :: "(real, string) np_ops" where
  "exact_ops = \<lparr>np_mean = mean, np_sub = (\<lambda>x y. x - y),
                 np_div = (\<lambda>x y. if y = 0 then Inl ''division by zero'' else Inr (x / y)),
                 np_abs = abs, np_gt = (\<lambda>x y. x > y), np_int_gt = (\<lambda>i y. of_int i > y),
                 np_bool = (\<lambda>x. x \<noteq> 0)\<rparr>"

definition failing_division :: "real \<Rightarrow> real \<Rightarrow> string + real" where
  "failing_division x y = Inl ''division''"

section \<open>Properties of the technical contradiction analyzer\<close>

lemma moving_average_last:
  assumes "20 \<le> length prices"
  shows "\<exists>ms. moving_average prices 20 = Inr ms \<and> ms \<noteq> []
              \<and> last ms = sum_list (drop (length prices - 20) prices) / 20"
proof -
  from assms have ne: "prices \<noteq> []" by auto
  let ?ms = "map (\<lambda>k. sum_list (take 20 (drop k prices)) / real 20)
                 [0 ..< length prices - 20 + 1]"
  have "moving_average prices 20 = Inr ?ms"
    using assms ne by (simp add: moving_average_def)
  moreover have "?ms \<noteq> []" by simp
  moreover have "last ?ms = sum_list (drop (length prices - 20) prices) / 20"
    using assms by (simp add: last_map)
  ultimately show ?thesis by blast
qed

lemma contradiction_score_shape:
  assumes "prices \<noteq> []"
  shows "contradiction_score prices a =
     Inr [(''ma20'', PFloat (ma20_of prices)), (''rsi'', PFloat (rsi_of prices)),
          (''contradiction_score'',
           PInt ((if (a = ''positive'' \<and> last prices < ma20_of prices)
                     \<or> (a = ''negative'' \<and> last prices > ma20_of prices) then 1 else 0)
               + (if (rsi_of prices > 70 \<and> a = ''positive'')
                     \<or> (rsi_of prices < 30 \<and> a = ''negative'') then 1 else 0)))]"
proof (cases "20 \<le> length prices")
  case True
  then obtain ms where ms: "moving_average prices 20 = Inr ms" "ms \<noteq> []"
      "last ms = sum_list (drop (length prices - 20) prices) / 20"
    using moving_average_last by blast
  have pn: "''positive'' \<noteq> ''negative''" by simp
  show ?thesis using True assms ms pn
    by (auto simp add: contradiction_score_def ma20_of_def rsi_of_def Let_def)
next
  case False
  have pn: "''positive'' \<noteq> ''negative''" by simp
  show ?thesis using False assms pn
    by (auto simp add: contradiction_score_def ma20_of_def rsi_of_def Let_def)
qed

lemma contradiction_score_empty:
  "contradiction_score [] a = Inl (IndexError ''list index out of range'')"
  by (simp add: contradiction_score_def)

text \<open>
  The moving-average fallback is taken exactly below 20 prices; the RSI fallback of
  \<open>contradiction_score\<close> is taken up to and including 15 prices, while \<open>compute_rsi\<close>
  itself falls back only below 15.
\<close>

lemma contradiction_score_fallbacks:
  assumes "prices \<noteq> []"
  shows "\<exists>d. contradiction_score prices a = Inr d
     \<and> map_of d ''ma20'' = Some (PFloat (if length prices < 20 then mean prices
                                          else sum_list (drop (length prices - 20) prices) / 20))
     \<and> map_of d ''rsi'' = Some (PFloat (if length prices \<le> 15 then 50
                                         else compute_rsi prices 14))"
  using contradiction_score_shape [OF assms, of a]
  by (auto simp add: ma20_of_def rsi_of_def)

lemma compute_rsi_fallback:
  "length data < 15 \<Longrightarrow> compute_rsi data 14 = 50"
proof (induction data rule: diff.induct)
  case (1 x y ys)
  have "length (diff zs) = length zs - 1" for zs
    by (induction zs rule: diff.induct) auto
  then show ?case using 1 by (simp add: compute_rsi_def Let_def)
qed (simp_all add: compute_rsi_def)

text \<open>
  C3 (evaluation at a series of exactly 15 prices). \<open>compute_rsi\<close> has its 14 deltas and
  computes 650/7 (about 92.9), yet \<open>contradiction_score\<close> reports the neutral 50 and so
  misses the RSI contradiction with a positive announcement; one more price and the
  computed value is used.
\<close>

theorem contradiction_score_rsi_fallback_at_15_points:
  "length [1, 2, 3, 4, 5, 6, 7, 8, 9, 10, 11, 12, 13, 14, 13 :: real] = 15
   \<and> compute_rsi [1, 2, 3, 4, 5, 6, 7, 8, 9, 10, 11, 12, 13, 14, 13] 14 = 650 / 7
   \<and> contradiction_score [1, 2, 3, 4, 5, 6, 7, 8, 9, 10, 11, 12, 13, 14, 13] ''positive''
       = Inr [(''ma20'', PFloat (118 / 15)), (''rsi'', PFloat 50),
              (''contradiction_score'', PInt 0)]
   \<and> contradiction_score [1, 2, 3, 4, 5, 6, 7, 8, 9, 10, 11, 12, 13, 14, 13, 12] ''positive''
       = Inr [(''ma20'', PFloat (65 / 8)), (''rsi'', PFloat (650 / 7)),
              (''contradiction_score'', PInt 1)]"
  by (simp add: contradiction_score_def compute_rsi_def mean_def)

text \<open>
  C9. On an empty price list \<open>contradiction_score\<close> raises; on every other list and for
  every announcement type it returns a dictionary whose \<open>contradiction_score\<close> is the
  integer 0, 1 or 2: at most one increment from the moving average (its two tests need
  different announcement types) plus at most one from the RSI.
\<close>

theorem contradiction_score_at_most_two:
  "(prices = [] \<longrightarrow> (\<exists>e. contradiction_score prices a = Inl e))
   \<and> (prices \<noteq> [] \<longrightarrow>
        (\<exists>d n. contradiction_score prices a = Inr d
           \<and> map_of d ''contradiction_score'' = Some (PInt n)
           \<and> n = (if (a = ''positive'' \<and> last prices < ma20_of prices)
                      \<or> (a = ''negative'' \<and> last prices > ma20_of prices) then 1 else 0)
                 + (if (rsi_of prices > 70 \<and> a = ''positive'')
                      \<or> (rsi_of prices < 30 \<and> a = ''negative'') then 1 else 0)
           \<and> \<not> (a = ''positive'' \<and> a = ''negative'')
           \<and> n \<in> {0, 1, 2}))"
proof (cases "prices = []")
  case True
  then show ?thesis by (simp add: contradiction_score_empty)
next
  case False
  show ?thesis using False contradiction_score_shape [OF False, of a]
    by auto
qed

theorem contradiction_score_at_most_two_witness:
  "(\<exists>e. contradiction_score [] ''positive'' = Inl e)
   \<and> [3, 2, 1 :: real] \<noteq> []
   \<and> (\<exists>d n. contradiction_score [3, 2, 1] ''positive'' = Inr d
         \<and> map_of d ''contradiction_score'' = Some (PInt n) \<and> n \<in> {0, 1, 2})"
  using contradiction_score_at_most_two [of "[]" "''positive''"]
        contradiction_score_at_most_two [of "[3, 2, 1]" "''positive''"]
  by (auto simp add: ma20_of_def rsi_of_def mean_def)

section \<open>Properties of the identifier validators\<close>

lemma match_here_times:
  "match_here ic (times n cl @ rest) s \<longleftrightarrow>
     n \<le> length s \<and> (\<forall>c\<in>set (take n s). class_match ic cl c) \<and> match_here ic rest (drop n s)"
proof (induction n arbitrary: s)
  case 0
  then show ?case by (simp add: times_def)
next
  case (Suc n)
  show ?case
  proof (cases s)
    case Nil
    then show ?thesis by (simp add: times_def)
  next
    case (Cons c cs)
    then show ?thesis using Suc [of cs] by (auto simp add: times_def)
  qed
qed

lemma match_here_dollar: "match_here ic [Dollar] s \<longleftrightarrow> (s = [] \<or> s = [CHR 0x0A])"
  by simp

lemma cp_less: "cp c < 256"
  by (simp add: cp_def)

lemma cp_char_of: "n < 256 \<Longrightarrow> cp (char_of n) = n"
  by (simp add: cp_def)

lemma class_upper_AZ_09: "class_match False upper_AZ_09 c = is_upper_or_digit c"
  by (auto simp add: class_match_def is_upper_or_digit_def cp_def)

lemma strip_last: "strip s \<noteq> [] \<Longrightarrow> \<not> isspace (last (strip s))"
proof -
  assume ne: "strip s \<noteq> []"
  let ?t = "dropWhile isspace (rev (dropWhile isspace s))"
  from ne have t: "?t \<noteq> []" by (simp add: strip_def)
  then have "\<not> isspace (hd ?t)" by (rule hd_dropWhile)
  moreover have "last (strip s) = hd ?t" using t by (simp add: strip_def last_rev)
  ultimately show ?thesis by simp
qed

lemma upper_last: 
  assumes "t \<noteq> []" "\<not> isspace (last t)"
  shows "upper t \<noteq> [] \<and> last (upper t) \<noteq> CHR 0x0A"
proof -
  obtain c ys where t: "t = ys @ [c]" using assms(1) by (metis rev_exhaust)
  let ?f = "\<lambda>c. if cp c = 223 then ''SS'' else [upper_char c]"
  have up: "upper t = upper ys @ ?f c" by (simp add: upper_def t)
  have c: "\<not> isspace c" using assms(2) t by simp
  have "cp (upper_char c) \<noteq> 10"
    using c cp_less [of c] by (auto simp add: upper_char_def cp_char_of isspace_def)
  then have "upper_char c \<noteq> CHR 0x0A" by (auto simp add: cp_def)
  then show ?thesis by (simp add: up)
qed

lemma LEI_RE_iff:
  "re_match False LEI_RE u \<longleftrightarrow>
     20 \<le> length u \<and> (\<forall>c\<in>set (take 20 u). is_upper_or_digit c)
     \<and> (drop 20 u = [] \<or> drop 20 u = [CHR 0x0A])"
  unfolding re_match_def LEI_RE_def match_here_times match_here_dollar class_upper_AZ_09
  by simp

lemma LEI_RE_upper_strip:
  "re_match False LEI_RE (upper (strip s)) \<longleftrightarrow>
     length (upper (strip s)) = 20 \<and> (\<forall>c\<in>set (upper (strip s)). is_upper_or_digit c)"
proof -
  let ?u = "upper (strip s)"
  have no_nl: "drop 20 ?u \<noteq> [CHR 0x0A]"
  proof
    assume d: "drop 20 ?u = [CHR 0x0A]"
    then have "?u \<noteq> []" by auto
    then have "strip s \<noteq> []" by (auto simp add: upper_def)
    then have "last ?u \<noteq> CHR 0x0A" using upper_last strip_last by blast
    moreover have "length ?u - 20 = 1" using arg_cong [OF d, of length] by simp
    then have "20 < length ?u" by simp
    then have "last ?u = last (drop 20 ?u)" by (simp add: last_drop)
    ultimately show False using d by simp
  qed
  show ?thesis unfolding LEI_RE_iff using no_nl by auto
qed

lemma umatch_here_replicate:
  "umatch_here (replicate k (UOne rs) @ rest) s \<longleftrightarrow>
     k \<le> length s \<and> (\<forall>n\<in>set (take k s). ranges_match_ignorecase rs n)
     \<and> umatch_here rest (drop k s)"
proof (induction k arbitrary: s)
  case 0
  then show ?case by simp
next
  case (Suc k)
  show ?case
  proof (cases s)
    case Nil
    then show ?thesis by simp
  next
    case (Cons n ns)
    then show ?thesis using Suc [of ns] by auto
  qed
qed

lemma umatch_here_dollar: "umatch_here [UDollar] s \<longleftrightarrow> (s = [] \<or> s = [0x0A])"
  by simp

lemma digits_ignorecase:
  "ranges_match_ignorecase [(CHR ''0'', CHR ''9'')] n = is_digit_point n"
  by (auto simp add: ranges_match_ignorecase_def in_ranges_def ascii_case_variants_def
      is_digit_point_def cp_def)

lemma alnum_ignorecase:
  "ranges_match_ignorecase [(CHR ''0'', CHR ''9''), (CHR ''A'', CHR ''Z'')] n = is_alnum_point n"
  by (auto simp add: ranges_match_ignorecase_def in_ranges_def ascii_case_variants_def
      is_alnum_point_def cp_def)

lemma LEI_PATTERN_iff:
  "valid_lei t \<longleftrightarrow>
     20 \<le> length t \<and> (\<forall>n\<in>set (take 18 t). is_alnum_point n)
     \<and> (\<forall>n\<in>set (take 2 (drop 18 t)). is_digit_point n)
     \<and> (drop 20 t = [] \<or> drop 20 t = [0x0A])"
  unfolding valid_lei_def LEI_PATTERN_def umatch_here_replicate umatch_here_dollar
    alnum_ignorecase digits_ignorecase
  by auto

lemma validate_lei_pattern_valid:
  "map_of (validate_lei g s) ''pattern_valid'' = Some (PBool (re_match False LEI_RE (upper (strip s))))"
  by (simp add: validate_lei_def Let_def split: http_result.split sum.split)

lemma validate_lei_prefix:
  "take 2 (validate_lei g s) = [(''input'', PStr (upper (strip s))), (''pattern_valid'', PBool (re_match False LEI_RE (upper (strip s))))]"
  by (simp add: validate_lei_def Let_def split: http_result.split sum.split)

lemma validate_lei_no_call:
  "\<not> re_match False LEI_RE (upper (strip s)) \<Longrightarrow> validate_lei g s = [(''input'', PStr (upper (strip s))), (''pattern_valid'', PBool False)]"
  by (simp add: validate_lei_def Let_def)

lemma bulk_pattern_valid:
  "map_of (bulk_registry_check g ids) k = Some v \<Longrightarrow> \<exists>d b. v = PDict d \<and> map_of d ''pattern_valid'' = Some (PBool b)"
  by (auto simp add: bulk_registry_check_def validate_lei_pattern_valid validate_isin_def validate_cin_def validate_sebi_id_def Let_def split: option.splits if_splits)

lemma bulk_pattern_valid_independent:
  "map (\<lambda>(k, v). (k, pattern_valid_of v)) (bulk_registry_check g1 ids)
   = map (\<lambda>(k, v). (k, pattern_valid_of v)) (bulk_registry_check g2 ids)"
  by (simp add: bulk_registry_check_def pattern_valid_of_def validate_lei_pattern_valid
      split: option.splits)

text \<open>
  C5 (as the code has it). \<open>validate_lei\<close> of core/registry\_checks.py reports
  \<open>pattern_valid\<close> true exactly when the input, trimmed and uppercased, is 20 characters
  long and each is an uppercase letter or a digit. \<open>valid_lei\<close> of core/verifiers.py
  neither trims nor uppercases: it holds exactly when the text, up to one final line feed,
  is 18 characters, each an ASCII letter of either case, an ASCII digit or one of U+0130,
  U+0131, U+017F and U+212A (which match \<open>i\<close>, \<open>s\<close> and \<open>k\<close> when case is ignored),
  followed by 2 ASCII digits. The example \<open>LIPSUM1234567890ABCD\<close> is pattern-valid for
  \<open>validate_lei\<close>; \<open>short123\<close> is rejected by both.
\<close>

theorem lei_validators_grammar:
  "map_of (validate_lei g s) ''pattern_valid''
     = Some (PBool (length (upper (strip s)) = 20
                    \<and> (\<forall>c\<in>set (upper (strip s)). is_upper_or_digit c)))
   \<and> valid_lei t
       = (20 \<le> length t \<and> (\<forall>n\<in>set (take 18 t). is_alnum_point n)
          \<and> (\<forall>n\<in>set (take 2 (drop 18 t)). is_digit_point n)
          \<and> (drop 20 t = [] \<or> drop 20 t = [0x0A]))
   \<and> map_of (validate_lei g ''LIPSUM1234567890ABCD'') ''pattern_valid'' = Some (PBool True)
   \<and> map_of (validate_lei g ''short123'') ''pattern_valid'' = Some (PBool False)
   \<and> \<not> valid_lei (codepoints ''short123'')"
proof -
  have a: "re_match False LEI_RE (upper (strip ''LIPSUM1234567890ABCD''))" by code_simp
  have b: "\<not> re_match False LEI_RE (upper (strip ''short123''))" by code_simp
  have c: "\<not> valid_lei (codepoints ''short123'')" by code_simp
  show ?thesis
    using a b c by (simp add: validate_lei_pattern_valid LEI_RE_upper_strip LEI_PATTERN_iff)
qed

text \<open>
  The example identifier has 20 uppercase letters and digits after trimming and
  uppercasing, and \<open>valid_lei\<close> rejects it: its last two characters are not digits.
\<close>

theorem valid_lei_rejects_letter_check_digits:
  "\<not> valid_lei (codepoints ''LIPSUM1234567890ABCD'')
   \<and> length (upper (strip ''LIPSUM1234567890ABCD'')) = 20
   \<and> list_all is_upper_or_digit (upper (strip ''LIPSUM1234567890ABCD''))"
  by code_simp

theorem lei_validators_grammar_witness:
  "map_of (validate_lei (\<lambda>u. Raised ''connection refused'') '' lipsum1234567890abcd '')
          ''pattern_valid'' = Some (PBool True)
   \<and> valid_lei (codepoints ''5493001KJTIIGC8Y1R12'')
   \<and> valid_lei (codepoints ''5493001kjtiigc8y1'' @ [0x17F] @ codepoints ''12'' @ [0x0A])
   \<and> \<not> valid_lei (codepoints ''5493001KJTIIGC8Y1'' @ [0xE9] @ codepoints ''12'')"
proof -
  let ?a = "codepoints ''5493001KJTIIGC8Y1R12''"
  let ?b = "codepoints ''5493001kjtiigc8y1'' @ [0x17F] @ codepoints ''12'' @ [0x0A]"
  let ?c = "codepoints ''5493001KJTIIGC8Y1'' @ [0xE9] @ codepoints ''12''"
  have v: "length (upper (strip '' lipsum1234567890abcd '')) = 20
           \<and> list_all is_upper_or_digit (upper (strip '' lipsum1234567890abcd ''))"
    by code_simp
  have a: "20 \<le> length ?a \<and> list_all is_alnum_point (take 18 ?a)
           \<and> list_all is_digit_point (take 2 (drop 18 ?a)) \<and> drop 20 ?a = []"
    by code_simp
  have b: "20 \<le> length ?b \<and> list_all is_alnum_point (take 18 ?b)
           \<and> list_all is_digit_point (take 2 (drop 18 ?b)) \<and> drop 20 ?b = [0x0A]"
    by code_simp
  have c: "\<not> list_all is_alnum_point (take 18 ?c)"
    by code_simp
  show ?thesis
    using v a b c
      lei_validators_grammar [of "\<lambda>u. Raised ''connection refused''"
                                 "'' lipsum1234567890abcd ''" ?a]
      lei_validators_grammar [of "\<lambda>u. Raised ''connection refused''"
                                 "'' lipsum1234567890abcd ''" ?b]
      lei_validators_grammar [of "\<lambda>u. Raised ''connection refused''"
                                 "'' lipsum1234567890abcd ''" ?c]
    by (simp only: list_all_iff) simp
qed

text \<open>
  C6. Whatever the network does (\<open>g1\<close> and \<open>g2\<close> are any two behaviours of
  \<open>requests.get\<close>: a response, an exception, or never called), \<open>validate_lei\<close> returns the
  same \<open>pattern_valid\<close>, a boolean that depends on the string alone. The entry is the
  second of the result, written before the request is made and present in every result;
  an invalid pattern makes no request at all. The same holds for every entry of
  \<open>bulk_registry_check\<close>.
\<close>

theorem pattern_valid_independent_of_network:
  "map_of (validate_lei g1 s) ''pattern_valid'' = map_of (validate_lei g2 s) ''pattern_valid''
   \<and> map_of (validate_lei g1 s) ''pattern_valid''
       = Some (PBool (re_match False LEI_RE (upper (strip s))))
   \<and> take 2 (validate_lei g1 s)
       = [(''input'', PStr (upper (strip s))),
          (''pattern_valid'', PBool (re_match False LEI_RE (upper (strip s))))]
   \<and> (\<not> re_match False LEI_RE (upper (strip s)) \<longrightarrow>
        validate_lei g1 s = [(''input'', PStr (upper (strip s))), (''pattern_valid'', PBool False)])
   \<and> map (\<lambda>(k, v). (k, pattern_valid_of v)) (bulk_registry_check g1 ids)
       = map (\<lambda>(k, v). (k, pattern_valid_of v)) (bulk_registry_check g2 ids)
   \<and> (\<forall>k v. map_of (bulk_registry_check g1 ids) k = Some v \<longrightarrow>
          (\<exists>b. pattern_valid_of v = Some (PBool b)))"
proof -
  have "\<exists>b. pattern_valid_of v = Some (PBool b)"
    if "map_of (bulk_registry_check g1 ids) k = Some v" for k v
    using bulk_pattern_valid [OF that] by (auto simp add: pattern_valid_of_def)
  then show ?thesis
    using validate_lei_pattern_valid validate_lei_prefix validate_lei_no_call
      bulk_pattern_valid_independent
    by auto
qed

theorem pattern_valid_independent_of_network_witness:
  "map_of (validate_lei (\<lambda>u. Raised ''timed out'') ''LIPSUM1234567890ABCD'') ''pattern_valid''
     = map_of (validate_lei (\<lambda>u. Response 200 (Inr (PDict []))) ''LIPSUM1234567890ABCD'')
              ''pattern_valid''
   \<and> \<not> re_match False LEI_RE (upper (strip ''short123''))
   \<and> validate_lei (\<lambda>u. Raised ''timed out'') ''short123''
       = [(''input'', PStr ''SHORT123''), (''pattern_valid'', PBool False)]
   \<and> map_of (bulk_registry_check (\<lambda>u. Raised ''timed out'') [(''lei'', ''LIPSUM1234567890ABCD'')])
             ''lei''
       = Some (PDict [(''input'', PStr ''LIPSUM1234567890ABCD''), (''pattern_valid'', PBool True),
                      (''gleif_error'', PStr ''timed out'')])
   \<and> (\<exists>b. pattern_valid_of (PDict [(''input'', PStr ''LIPSUM1234567890ABCD''),
                 (''pattern_valid'', PBool True), (''gleif_error'', PStr ''timed out'')])
             = Some (PBool b))"
proof -
  have a: "\<not> re_match False LEI_RE (upper (strip ''short123''))" by code_simp
  have u: "upper (strip ''short123'') = ''SHORT123''" by code_simp
  have b: "map_of (bulk_registry_check (\<lambda>u. Raised ''timed out'') [(''lei'', ''LIPSUM1234567890ABCD'')])
             ''lei''
       = Some (PDict [(''input'', PStr ''LIPSUM1234567890ABCD''), (''pattern_valid'', PBool True),
                      (''gleif_error'', PStr ''timed out'')])" by code_simp
  show ?thesis
    using a u b
      pattern_valid_independent_of_network [of "\<lambda>u. Raised ''timed out''" "''LIPSUM1234567890ABCD''"
         "\<lambda>u. Response 200 (Inr (PDict []))" "[(''lei'', ''LIPSUM1234567890ABCD'')]"]
      pattern_valid_independent_of_network [of "\<lambda>u. Raised ''timed out''" "''short123''"
         "\<lambda>u. Response 200 (Inr (PDict []))" "[]"]
    by auto
qed

section \<open>Properties of the lexical hype scorer\<close>

lemma hype_loop_count:
  "hype_loop ws t acc = acc + 10 * int (length (filter (\<lambda>w. re_search False w t) ws))"
  by (induction ws arbitrary: acc) auto

lemma length_HYPE_WORDS: "length HYPE_WORDS = 9"
  by (simp add: HYPE_WORDS_def)

lemma distinct_HYPE_WORDS: "distinct HYPE_WORDS"
  by (simp add: HYPE_WORDS_def lit_def plus_of_def)

text \<open>
  C4. The hype score is 10 points for each of the (pairwise distinct) patterns found in
  the lowercased text, capped at 100. A score of at least 30, or the contradiction flag,
  gives risk \<open>high\<close> with the returned score raised to at least 70; otherwise a score of
  at least 10 gives \<open>medium\<close>, and anything else \<open>low\<close>. The text
  \<open>guaranteed multibagger target 500\<close> scores at least 30 and is \<open>high\<close>. The score is
  a function of the text alone.
\<close>

theorem hype_score_verdict:
  "hype_score text = min 100 (10 * int (length (filter (\<lambda>w. re_search False w (lower text)) HYPE_WORDS)))
   \<and> distinct HYPE_WORDS
   \<and> 0 \<le> hype_score text \<and> hype_score text \<le> 100
   \<and> (hype_score text \<ge> 30 \<or> ta \<longrightarrow>
        map_of (tip_verdict text ta) ''risk'' = Some (PStr ''high'')
        \<and> (\<exists>n. map_of (tip_verdict text ta) ''score'' = Some (PInt n)
                \<and> n = max (hype_score text) 70 \<and> n \<ge> 70))
   \<and> (\<not> (hype_score text \<ge> 30 \<or> ta) \<and> hype_score text \<ge> 10 \<longrightarrow>
        map_of (tip_verdict text ta) ''risk'' = Some (PStr ''medium'')
        \<and> map_of (tip_verdict text ta) ''score'' = Some (PInt (hype_score text)))
   \<and> (\<not> (hype_score text \<ge> 30 \<or> ta) \<and> \<not> hype_score text \<ge> 10 \<longrightarrow>
        map_of (tip_verdict text ta) ''risk'' = Some (PStr ''low'')
        \<and> map_of (tip_verdict text ta) ''score'' = Some (PInt (hype_score text)))
   \<and> hype_score ''guaranteed multibagger target 500'' \<ge> 30
   \<and> map_of (tip_verdict ''guaranteed multibagger target 500'' ta) ''risk'' = Some (PStr ''high'')"
proof -
  have ex: "hype_score ''guaranteed multibagger target 500'' = 30" by code_simp
  have hclosed: "hype_score text = min 100 (10 * int (length (filter (\<lambda>w. re_search False w (lower text)) HYPE_WORDS)))"
    by (simp add: hype_score_def Let_def hype_loop_count)
  have hrange: "0 \<le> hype_score text \<and> hype_score text \<le> 100"
    unfolding hclosed by simp
  have hhigh: "map_of (tip_verdict x ta) ''risk'' = Some (PStr ''high'')
        \<and> (\<exists>n. map_of (tip_verdict x ta) ''score'' = Some (PInt n)
                \<and> n = max (hype_score x) 70 \<and> n \<ge> 70)" if "hype_score x \<ge> 30 \<or> ta" for x
    using that by (simp add: tip_verdict_def Let_def)
  have hmed: "map_of (tip_verdict text ta) ''risk'' = Some (PStr ''medium'')
        \<and> map_of (tip_verdict text ta) ''score'' = Some (PInt (hype_score text))"
    if "\<not> (hype_score text \<ge> 30 \<or> ta)" "hype_score text \<ge> 10"
    using that by (simp add: tip_verdict_def Let_def)
  have hlow: "map_of (tip_verdict text ta) ''risk'' = Some (PStr ''low'')
        \<and> map_of (tip_verdict text ta) ''score'' = Some (PInt (hype_score text))"
    if "\<not> (hype_score text \<ge> 30 \<or> ta)" "\<not> hype_score text \<ge> 10"
    using that by (simp add: tip_verdict_def Let_def)
  have ex_hi: "map_of (tip_verdict ''guaranteed multibagger target 500'' ta) ''risk'' = Some (PStr ''high'')"
    using hhigh [of "''guaranteed multibagger target 500''"] ex by simp
  show ?thesis
    using hclosed distinct_HYPE_WORDS hrange hhigh [of "text"] hmed hlow ex ex_hi
    by (intro conjI impI) simp_all
qed

theorem hype_score_verdict_witness:
  "hype_score ''Sure shot MULTIBAGGER, inside info: 5x returns, target 900'' = 50
   \<and> map_of (tip_verdict ''Sure shot MULTIBAGGER, inside info: 5x returns, target 900'' False) ''risk'' = Some (PStr ''high'')
   \<and> map_of (tip_verdict ''Sure shot MULTIBAGGER, inside info: 5x returns, target 900'' False) ''score'' = Some (PInt 70)
   \<and> \<not> (hype_score ''pump it'' \<ge> 30 \<or> False) \<and> hype_score ''pump it'' \<ge> 10
   \<and> map_of (tip_verdict ''pump it'' False) ''risk'' = Some (PStr ''medium'')
   \<and> map_of (tip_verdict ''quarterly results'' False) ''risk'' = Some (PStr ''low'')
   \<and> map_of (tip_verdict ''quarterly results'' True) ''risk'' = Some (PStr ''high'')"
proof -
  have a: "hype_score ''Sure shot MULTIBAGGER, inside info: 5x returns, target 900'' = 50" by code_simp
  have b: "hype_score ''pump it'' = 10" by code_simp
  have c: "hype_score ''quarterly results'' = 0" by code_simp
  show ?thesis
    using a b c
      hype_score_verdict [of "''Sure shot MULTIBAGGER, inside info: 5x returns, target 900''" False]
      hype_score_verdict [of "''pump it''" False]
      hype_score_verdict [of "''quarterly results''" False]
      hype_score_verdict [of "''quarterly results''" True]
    by simp
qed

section \<open>Properties of the numeric anomaly detector\<close>

lemma length_dropna: "length (dropna series) \<le> length series"
  by (induction series rule: dropna.induct) auto

text \<open>
  C8. Whatever the arithmetic of the numbers, with fewer than 2 usable observations (after
  \<open>dropna\<close>; in particular with fewer than 2 entries) \<open>detect_numeric_anomalies\<close> returns,
  without raising, \<open>anomaly = False\<close> and the latest value only, which is null for a series
  with no usable observation. With 2 or more and a historical mean that is zero (false as
  a truth value) the deviation is the integer 0 and the division is not evaluated: the
  result is the same for every division, also one that raises. Only a mean that is not
  zero is divided by.
\<close>

theorem detect_numeric_anomalies_degenerate:
  "(length (dropna series) < 2 \<longrightarrow>
      detect_numeric_anomalies np series threshold
        = Inr [(''anomaly'', NBool False),
               (''latest'', case dropna series of [] \<Rightarrow> NNone | x # xs \<Rightarrow> NFloat (last (x # xs)))])
   \<and> (length series < 2 \<longrightarrow> length (dropna series) < 2)
   \<and> detect_numeric_anomalies np [] threshold
        = Inr [(''anomaly'', NBool False), (''latest'', NNone)]
   \<and> (2 \<le> length (dropna series) \<and> \<not> np_bool np (np_mean np (butlast (dropna series))) \<longrightarrow>
        detect_numeric_anomalies np series threshold
          = Inr [(''latest'', NFloat (last (dropna series))),
                 (''mean'', NFloat (np_mean np (butlast (dropna series)))),
                 (''deviation'', NInt 0),
                 (''anomaly'', NBool (np_int_gt np 0 threshold))]
        \<and> detect_numeric_anomalies (np\<lparr>np_div := d\<rparr>) series threshold
            = detect_numeric_anomalies np series threshold)
   \<and> (2 \<le> length (dropna series) \<and> np_bool np (np_mean np (butlast (dropna series))) \<longrightarrow>
        detect_numeric_anomalies np series threshold
          = (case np_div np (np_sub np (last (dropna series))
                               (np_mean np (butlast (dropna series))))
                            (np_mean np (butlast (dropna series))) of
               Inl e \<Rightarrow> Inl e
             | Inr q \<Rightarrow>
                 Inr [(''latest'', NFloat (last (dropna series))),
                      (''mean'', NFloat (np_mean np (butlast (dropna series)))),
                      (''deviation'', NFloat q),
                      (''anomaly'', NBool (np_gt np (np_abs np q) threshold))]))"
proof -
  have a: "length (dropna series) < 2 \<longrightarrow>
      detect_numeric_anomalies np series threshold
        = Inr [(''anomaly'', NBool False),
               (''latest'', case dropna series of [] \<Rightarrow> NNone | x # xs \<Rightarrow> NFloat (last (x # xs)))]"
    by (cases "dropna series") (simp_all add: detect_numeric_anomalies_def Let_def)
  have b: "length series < 2 \<longrightarrow> length (dropna series) < 2"
    using length_dropna [of series] by simp
  have c: "detect_numeric_anomalies np [] threshold
        = Inr [(''anomaly'', NBool False), (''latest'', NNone)]"
    by (simp add: detect_numeric_anomalies_def)
  have d: "2 \<le> length (dropna series) \<and> \<not> np_bool np (np_mean np (butlast (dropna series))) \<longrightarrow>
        detect_numeric_anomalies np series threshold
          = Inr [(''latest'', NFloat (last (dropna series))),
                 (''mean'', NFloat (np_mean np (butlast (dropna series)))),
                 (''deviation'', NInt 0),
                 (''anomaly'', NBool (np_int_gt np 0 threshold))]
        \<and> detect_numeric_anomalies (np\<lparr>np_div := d\<rparr>) series threshold
            = detect_numeric_anomalies np series threshold"
    by (simp add: detect_numeric_anomalies_def Let_def)
  have e: "2 \<le> length (dropna series) \<and> np_bool np (np_mean np (butlast (dropna series))) \<longrightarrow>
        detect_numeric_anomalies np series threshold
          = (case np_div np (np_sub np (last (dropna series))
                               (np_mean np (butlast (dropna series))))
                            (np_mean np (butlast (dropna series))) of
               Inl e \<Rightarrow> Inl e
             | Inr q \<Rightarrow>
                 Inr [(''latest'', NFloat (last (dropna series))),
                      (''mean'', NFloat (np_mean np (butlast (dropna series)))),
                      (''deviation'', NFloat q),
                      (''anomaly'', NBool (np_gt np (np_abs np q) threshold))])"
    by (simp add: detect_numeric_anomalies_def Let_def split: sum.splits)
  from a b c d e show ?thesis by blast
qed

theorem detect_numeric_anomalies_degenerate_witness:
  "detect_numeric_anomalies exact_ops [None, Some 7] (1/5)
     = Inr [(''anomaly'', NBool False), (''latest'', NFloat 7)]
   \<and> detect_numeric_anomalies exact_ops [Some 7] (1/5)
     = Inr [(''anomaly'', NBool False), (''latest'', NFloat 7)]
   \<and> \<not> np_bool exact_ops (np_mean exact_ops (butlast (dropna [Some (-5), Some 5, Some 150])))
   \<and> detect_numeric_anomalies exact_ops [Some (-5), Some 5, Some 150] (1/5)
     = Inr [(''latest'', NFloat 150), (''mean'', NFloat 0), (''deviation'', NInt 0),
            (''anomaly'', NBool False)]
   \<and> detect_numeric_anomalies (exact_ops\<lparr>np_div := failing_division\<rparr>)
        [Some (-5), Some 5, Some 150] (1/5)
     = Inr [(''latest'', NFloat 150), (''mean'', NFloat 0), (''deviation'', NInt 0),
            (''anomaly'', NBool False)]
   \<and> detect_numeric_anomalies exact_ops [Some 100, Some 104, Some 150] (1/5)
     = Inr [(''latest'', NFloat 150), (''mean'', NFloat 102), (''deviation'', NFloat (8/17)),
            (''anomaly'', NBool True)]
   \<and> detect_numeric_anomalies (exact_ops\<lparr>np_div := failing_division\<rparr>)
        [Some 100, Some 104, Some 150] (1/5)
     = Inl ''division''"
  using detect_numeric_anomalies_degenerate [of "[None, Some 7]" exact_ops "1/5" failing_division]
        detect_numeric_anomalies_degenerate [of "[Some 7]" exact_ops "1/5" failing_division]
        detect_numeric_anomalies_degenerate
          [of "[Some (-5), Some 5, Some 150]" exact_ops "1/5" failing_division]
        detect_numeric_anomalies_degenerate
          [of "[Some 100, Some 104, Some 150]" exact_ops "1/5" failing_division]
        detect_numeric_anomalies_degenerate
          [of "[Some 100, Some 104, Some 150]" "exact_ops\<lparr>np_div := failing_division\<rparr>" "1/5"
              failing_division]
  by (simp add: exact_ops_def mean_def failing_division_def)

section \<open>Properties of the official-source verifier and the URL hygiene check\<close>

lemma verify_announcement_demo:
  assumes "demo_override (announcement_text title company_hint link)"
  shows "\<exists>ev. verify_announcement rm now h title company_hint link
          = Inr [(''verdict'', PStr ''verified''),
                 (''reason'', PStr ''Matched Pharma domain and FDA approval trigger (demo)''),
                 (''evidence'', ev)]"
  using assms
  by (simp add: verify_announcement_def Let_def dict_get_def demo_override_def
      announcement_text_def)

lemma verify_announcement_suggested:
  assumes "\<not> demo_override (announcement_text title company_hint link)"
    and "suggest_official_sources rm (announcement_text title company_hint link) \<noteq> []"
  shows "\<exists>ev. verify_announcement rm now h title company_hint link
          = Inr [(''verdict'', PStr ''needs_official_link''),
                 (''reason'', PStr ''No exact official match found; check suggested regulators based on domain keywords.''),
                 (''evidence'', ev)]"
  using assms
  by (simp add: verify_announcement_def Let_def dict_get_def py_or_def
      verify_against_official_sources_def demo_override_def announcement_text_def)

lemma verify_announcement_unverified:
  assumes "\<not> demo_override (announcement_text title company_hint link)"
    and "suggest_official_sources rm (announcement_text title company_hint link) = []"
  shows "\<exists>ev. verify_announcement rm now h title company_hint link
          = Inr [(''verdict'', PStr ''unverified''),
                 (''reason'', PStr ''No official match via lightweight search''),
                 (''evidence'', ev)]"
  using assms
  by (simp add: verify_announcement_def Let_def dict_get_def py_or_def
      verify_against_official_sources_def demo_override_def announcement_text_def)

text \<open>
  C7. For every claim text, company hint and link (and every regulator map, clock and
  digest) \<open>verify_announcement\<close> returns a result whose verdict is one of the three
  non-empty strings \<open>verified\<close>, \<open>unverified\<close> and \<open>needs_official_link\<close>, with a
  non-empty reason; when nothing matches (no demo trigger, no regulator suggestion) the
  verdict is \<open>unverified\<close> with the reason of the official-source check.
\<close>

theorem verify_announcement_verdict_never_blank:
  "\<exists>v r ev. verify_announcement rm now h title company_hint link
                = Inr [(''verdict'', PStr v), (''reason'', PStr r), (''evidence'', ev)]
      \<and> (v = ''verified'' \<or> v = ''unverified'' \<or> v = ''needs_official_link'')
      \<and> v \<noteq> [] \<and> r \<noteq> []
      \<and> (\<not> demo_override (announcement_text title company_hint link)
           \<and> suggest_official_sources rm (announcement_text title company_hint link) = []
           \<longrightarrow> v = ''unverified'' \<and> r = ''No official match via lightweight search'')"
proof (cases "demo_override (announcement_text title company_hint link)")
  case True
  from verify_announcement_demo [OF True, of rm now h]
  show ?thesis using True by auto
next
  case False
  show ?thesis
  proof (cases "suggest_official_sources rm (announcement_text title company_hint link) = []")
    case True
    from verify_announcement_unverified [OF False True, of now h]
    show ?thesis by auto
  next
    case nonempty: False
    from verify_announcement_suggested [OF False nonempty, of now h]
    show ?thesis using nonempty by auto
  qed
qed

theorem verify_announcement_verdict_never_blank_witness:
  "\<not> demo_override (announcement_text ''Acme wins large order'' ''Acme'' None)
   \<and> suggest_official_sources [] (announcement_text ''Acme wins large order'' ''Acme'' None) = []
   \<and> (\<exists>ev. verify_announcement [] 0 (\<lambda>v. ''0'') ''Acme wins large order'' ''Acme'' None
              = Inr [(''verdict'', PStr ''unverified''),
                     (''reason'', PStr ''No official match via lightweight search''),
                     (''evidence'', ev)])"
proof -
  have a: "\<not> demo_override (announcement_text ''Acme wins large order'' ''Acme'' None)"
    by code_simp
  have b: "suggest_official_sources [] (announcement_text ''Acme wins large order'' ''Acme'' None) = []"
    by (simp add: suggest_official_sources_def)
  show ?thesis
    using a b
      verify_announcement_verdict_never_blank
        [of "[]" 0 "\<lambda>v. ''0''" "''Acme wins large order''" "''Acme''" None]
    by auto
qed

lemma officialish_nonempty: "officialish domain \<Longrightarrow> domain \<noteq> []"
  by (auto simp add: officialish_def)

lemma vt_step_malicious:
  assumes "\<not> truthy (dict_get d ''error'' PNone)"
    and "map_of d ''data'' = Some (PDict a)"
    and "map_of a ''attributes'' = Some (PDict b)"
    and "map_of b ''last_analysis_stats'' = Some (PDict c)"
    and "map_of c ''malicious'' = Some (PInt n)" and "0 < n"
  shows "vt_step (PDict d) (verdict, reasons)
         = Inr (''risky'', reasons @ [''VirusTotal flagged domain as malicious''])"
  using assms by (simp add: dict_get_def py_gt_def)

text \<open>
  C10. For an http(s) URL whose domain is on the official-looking list and whose
  VirusTotal report has no error and counts at least one malicious detection,
  \<open>check_document_link\<close> returns the verdict \<open>risky\<close>, not \<open>likely-official\<close>.
\<close>

theorem risky_dominates_official:
  assumes "startswith u ''http://'' \<or> startswith u ''https://''"
    and "officialish (url_domain netloc u)"
    and "vt (url_domain netloc u) = PDict d"
    and "\<not> truthy (dict_get d ''error'' PNone)"
    and "map_of d ''data'' = Some (PDict a)"
    and "map_of a ''attributes'' = Some (PDict b)"
    and "map_of b ''last_analysis_stats'' = Some (PDict c)"
    and "map_of c ''malicious'' = Some (PInt n)" and "0 < n"
  shows "map_of (check_document_link netloc vt us u) ''verdict'' = Some (PStr ''risky'')"
proof -
  have ne: "url_domain netloc u \<noteq> []" using assms(2) by (rule officialish_nonempty)
  have st: "vt_step (PDict d) (''likely-official'', [''Domain looks official: '' @ url_domain netloc u])
        = Inr (''risky'', [''Domain looks official: '' @ url_domain netloc u] @ [''VirusTotal flagged domain as malicious''])"
    using assms(4-9) by (rule vt_step_malicious)
  show ?thesis
    using assms(1,2,3) ne st
    by (simp add: check_document_link_def Let_def officialish_def)
qed

theorem risky_dominates_official_witness:
  "(startswith ''https://www.sebi.gov.in/x'' ''http://'' \<or> startswith ''https://www.sebi.gov.in/x'' ''https://'')
   \<and> officialish (url_domain (\<lambda>u. Some ''www.SEBI.gov.in'') ''https://www.sebi.gov.in/x'')
   \<and> map_of (check_document_link (\<lambda>u. Some ''www.SEBI.gov.in'')
         (\<lambda>dom. PDict [(''data'', PDict [(''attributes'',
                    PDict [(''last_analysis_stats'', PDict [(''malicious'', PInt 2)])])])])
         (\<lambda>u. PDict [(''error'', PStr ''no_api_key'')]) ''https://www.sebi.gov.in/x'') ''verdict''
       = Some (PStr ''risky'')"
proof -
  let ?u = "''https://www.sebi.gov.in/x''"
  let ?netloc = "\<lambda>u::string. Some ''www.SEBI.gov.in''"
  let ?c = "[(''malicious'', PInt 2)]"
  let ?b = "[(''last_analysis_stats'', PDict ?c)]"
  let ?a = "[(''attributes'', PDict ?b)]"
  let ?d = "[(''data'', PDict ?a)]"
  have h1: "startswith ?u ''http://'' \<or> startswith ?u ''https://''" by simp
  have h2: "officialish (url_domain ?netloc ?u)" by code_simp
  have h3: "(\<lambda>dom::string. PDict ?d) (url_domain ?netloc ?u) = PDict ?d" by simp
  have h4: "\<not> truthy (dict_get ?d ''error'' PNone)" by (simp add: dict_get_def)
  have h5: "map_of ?d ''data'' = Some (PDict ?a)" by simp
  have h6: "map_of ?a ''attributes'' = Some (PDict ?b)" by simp
  have h7: "map_of ?b ''last_analysis_stats'' = Some (PDict ?c)" by simp
  have h8: "map_of ?c ''malicious'' = Some (PInt 2)" by simp
  have h9: "(0::int) < 2" by simp
  show ?thesis
    using h1 h2 risky_dominates_official [OF h1 h2 h3 h4 h5 h6 h7 h8 h9]
    by simp
qed

section \<open>Properties of the evidence scorer\<close>

lemma lookup_rows_returns:
  "(\<exists>r. lookup_rows s = Inr r) \<longleftrightarrow> is_dict (signal s ''lookup'')"
  by (cases "signal s ''lookup''") (auto simp add: lookup_rows_def signal_def)

lemma official_rows_returns:
  "(\<exists>r. official_rows s = Inr r) \<longleftrightarrow> dict_or_falsy (signal s ''official'')"
  by (cases "signal s ''official''")
     (auto simp add: official_rows_def signal_def Let_def py_or_def dict_or_falsy_def)

lemma url_rows_returns:
  "(\<exists>r. url_rows s = Inr r) \<longleftrightarrow> dict_or_falsy (signal s ''url'')"
  by (cases "signal s ''url''")
     (auto simp add: url_rows_def signal_def Let_def py_or_def dict_or_falsy_def)

lemma identifier_rows_returns:
  "(\<exists>r. identifier_rows s = Inr r) \<longleftrightarrow> dict_or_falsy (signal s ''identifiers'')"
  by (cases "signal s ''identifiers''")
     (auto simp add: identifier_rows_def signal_def Let_def py_or_def dict_or_falsy_def)

lemma text_rows_returns:
  "(\<exists>r. text_rows s = Inr r) \<longleftrightarrow> num_of (dict_get s ''text_len'' (PInt 0)) \<noteq> None"
  by (auto simp add: text_rows_def py_gt_def split: option.splits)

lemma social_rows_returns:
  "(\<exists>r. social_rows s = Inr r) \<longleftrightarrow> dict_or_falsy (signal s ''social'')"
  by (cases "signal s ''social''")
     (auto simp add: social_rows_def signal_def Let_def py_or_def dict_or_falsy_def)

lemma anomaly_rows_returns:
  "(\<exists>r. anomaly_rows s = Inr r) \<longleftrightarrow> dict_or_falsy (signal s ''anomaly'')"
  by (cases "signal s ''anomaly''")
     (auto simp add: anomaly_rows_def signal_def Let_def py_or_def dict_or_falsy_def)

lemma contra_rows_returns:
  "(\<exists>r. contra_rows s = Inr r) \<longleftrightarrow> contra_ok (signal s ''contra'')"
  by (cases "signal s ''contra''")
     (auto simp add: contra_rows_def signal_def Let_def py_or_def contra_ok_def py_ge_def
           dict_get_def split: option.splits)

lemma score_from_signals_Inr:
  "score_from_signals s = Inr (t, rows) \<longleftrightarrow>
     (\<exists>r1 r2 r3 r4 r5 r6 r7 r8.
        lookup_rows s = Inr r1 \<and> official_rows s = Inr r2 \<and> url_rows s = Inr r3
        \<and> identifier_rows s = Inr r4 \<and> text_rows s = Inr r5 \<and> social_rows s = Inr r6
        \<and> anomaly_rows s = Inr r7 \<and> contra_rows s = Inr r8
        \<and> rows = (''Baseline'', 50, ''Neutral baseline'') # r1 @ r2 @ r3 @ r4 @ r5 @ r6 @ r7 @ r8
        \<and> t = max 0 (min 100 (sum_list (map contribution rows))))"
  by (auto simp add: score_from_signals_def Let_def split: sum.splits)

lemma score_from_signals_returns:
  "(\<exists>t rows. score_from_signals s = Inr (t, rows)) \<longleftrightarrow> well_typed_signals s"
proof -
  have "(\<exists>t rows. score_from_signals s = Inr (t, rows)) \<longleftrightarrow>
        (\<exists>r. lookup_rows s = Inr r) \<and> (\<exists>r. official_rows s = Inr r) \<and> (\<exists>r. url_rows s = Inr r)
        \<and> (\<exists>r. identifier_rows s = Inr r) \<and> (\<exists>r. text_rows s = Inr r)
        \<and> (\<exists>r. social_rows s = Inr r) \<and> (\<exists>r. anomaly_rows s = Inr r)
        \<and> (\<exists>r. contra_rows s = Inr r)"
    unfolding score_from_signals_Inr by blast
  then show ?thesis
    unfolding lookup_rows_returns official_rows_returns url_rows_returns
      identifier_rows_returns text_rows_returns social_rows_returns anomaly_rows_returns
      contra_rows_returns well_typed_signals_def
    by simp
qed

text \<open>
  C1. On well-typed signals the scorer returns (and only on those); whenever it returns,
  the score is in [0, 100] and is the sum of the contributions of the returned rows,
  clamped to that range.
\<close>

theorem score_is_clamped_sum:
  "(well_typed_signals s \<longrightarrow> (\<exists>t rows. score_from_signals s = Inr (t, rows)))
   \<and> (\<forall>t rows. score_from_signals s = Inr (t, rows) \<longrightarrow>
         well_typed_signals s \<and> 0 \<le> t \<and> t \<le> 100
         \<and> t = max 0 (min 100 (sum_list (map contribution rows))))"
proof -
  have "0 \<le> t \<and> t \<le> 100 \<and> t = max 0 (min 100 (sum_list (map contribution rows)))"
    if "score_from_signals s = Inr (t, rows)" for t rows
    using that unfolding score_from_signals_Inr by auto
  then show ?thesis using score_from_signals_returns [of s] by blast
qed

theorem score_is_clamped_sum_witness:
  "well_typed_signals rich_signals
   \<and> score_from_signals rich_signals
       = Inr (100, [(''Baseline'', 50, ''Neutral baseline''),
                    (''Local Registry Match'', 20, ''Found in data/lookup.json''),
                    (''Official Filing Match'', 30, ''Matched regulator/exchange via scraper''),
                    (''URL Domain Official-ish'', 10,
                     ''Domain looks official (e.g., sebi/nse/bse/gleif/fda/cdsco)''),
                    (''Identifiers Valid'', 10, ''Valid pattern(s): LEI''),
                    (''Text Extracted'', 5, ''OCR/Text extracted successfully''),
                    (''Social Signal'', 5, ''Classified as legit'')])
   \<and> sum_list (map contribution
         [(''Baseline'', 50, ''Neutral baseline''),
          (''Local Registry Match'', 20, ''Found in data/lookup.json''),
          (''Official Filing Match'', 30, ''Matched regulator/exchange via scraper''),
          (''URL Domain Official-ish'', 10,
           ''Domain looks official (e.g., sebi/nse/bse/gleif/fda/cdsco)''),
          (''Identifiers Valid'', 10, ''Valid pattern(s): LEI''),
          (''Text Extracted'', 5, ''OCR/Text extracted successfully''),
          (''Social Signal'', 5, ''Classified as legit'')]) = 130
   \<and> well_typed_signals bare_signals
   \<and> (\<exists>rows. score_from_signals bare_signals = Inr (42, rows))"
proof -
  have w: "well_typed_signals rich_signals" "well_typed_signals bare_signals"
    by code_simp+
  have e: "score_from_signals rich_signals
       = Inr (100, [(''Baseline'', 50, ''Neutral baseline''),
                    (''Local Registry Match'', 20, ''Found in data/lookup.json''),
                    (''Official Filing Match'', 30, ''Matched regulator/exchange via scraper''),
                    (''URL Domain Official-ish'', 10,
                     ''Domain looks official (e.g., sebi/nse/bse/gleif/fda/cdsco)''),
                    (''Identifiers Valid'', 10, ''Valid pattern(s): LEI''),
                    (''Text Extracted'', 5, ''OCR/Text extracted successfully''),
                    (''Social Signal'', 5, ''Classified as legit'')])"
    by code_simp
  have "score_from_signals bare_signals
       = Inr (42, [(''Baseline'', 50, ''Neutral baseline''),
                   (''Local Registry Match'', 0, ''No curated match''),
                   (''Official Filing Match'', -5, ''Not found in official sources (light check)''),
                   (''Text Extracted'', -3, ''No/low extractable text'')])"
    by code_simp
  then have b: "\<exists>rows. score_from_signals bare_signals = Inr (42, rows)"
    by blast
  show ?thesis
    using w e b score_is_clamped_sum [of rich_signals] score_is_clamped_sum [of bare_signals]
    by (simp add: contribution_def)
qed

lemma lookup_rows_shape:
  "lookup_rows s = Inr r \<Longrightarrow>
     r = [(''Local Registry Match'', 20, ''Found in data/lookup.json'')]
     \<or> r = [(''Local Registry Match'', 0, ''No curated match'')]"
  by (auto simp add: lookup_rows_def split: sum.splits if_splits)

lemma official_rows_shape:
  "official_rows s = Inr r \<Longrightarrow>
     r = [(''Official Filing Match'', 30, ''Matched regulator/exchange via scraper'')]
     \<or> r = [(''Regulator Suggested'', 5, ''No exact match but regulators suggested'')]
     \<or> r = [(''Official Filing Match'', -5, ''Not found in official sources (light check)'')]"
  by (auto simp add: official_rows_def Let_def split: sum.splits if_splits)

lemma url_rows_shape:
  "url_rows s = Inr r \<Longrightarrow>
     (if url_present s
      then r = [(''URL Domain Official-ish'', 10,
                 ''Domain looks official (e.g., sebi/nse/bse/gleif/fda/cdsco)'')]
           \<or> r = [(''URL Risk (VirusTotal)'', -40, ''Malicious indicators on domain'')]
           \<or> r = [(''URL Scan Presence'', 2, ''URL was scanned / reachable'')]
      else r = [])"
  by (cases "signal s ''url''")
     (auto simp add: url_rows_def url_present_def signal_def Let_def py_or_def dict_get_def
           split: sum.splits if_splits)

lemma identifier_rows_shape:
  "identifier_rows s = Inr r \<Longrightarrow>
     (if ids_valid s
      then r = [(''Identifiers Valid'', 10,
                 ''Valid pattern(s): '' @ join '', ''
                    (valid_ids (case signal s ''identifiers'' of PDict d \<Rightarrow> d | _ \<Rightarrow> [])))]
      else r = [])"
  by (cases "signal s ''identifiers''")
     (auto simp add: identifier_rows_def ids_valid_def signal_def Let_def py_or_def
           split: if_splits)

lemma text_rows_shape:
  "text_rows s = Inr r \<Longrightarrow>
     r = [(''Text Extracted'', 5, ''OCR/Text extracted successfully'')]
     \<or> r = [(''Text Extracted'', -3, ''No/low extractable text'')]"
  by (auto simp add: text_rows_def split: sum.splits if_splits)

lemma social_rows_shape:
  "social_rows s = Inr r \<Longrightarrow>
     (if social_present s
      then r = [(''Social Signal'', 5, ''Classified as legit'')]
           \<or> r = [(''Social Signal'', -5, ''Classified as suspicious'')]
      else r = [])"
  by (cases "signal s ''social''")
     (auto simp add: social_rows_def social_present_def signal_def Let_def py_or_def dict_get_def
           split: sum.splits if_splits)

lemma anomaly_rows_shape:
  "anomaly_rows s = Inr r \<Longrightarrow>
     (if anomaly_flagged s
      then r = [(''Numeric Anomaly'', -12, ''Outlier vs history (demo rule)'')]
      else r = [])"
  by (cases "signal s ''anomaly''")
     (auto simp add: anomaly_rows_def anomaly_flagged_def signal_def Let_def py_or_def dict_get_def
           split: sum.splits if_splits)

lemma contra_rows_shape:
  "contra_rows s = Inr r \<Longrightarrow>
     (if contradicted s
      then r = [(''Market Contradiction'', -8, ''Price/RSI contradicts positive claim'')]
      else r = [])"
  by (cases "signal s ''contra''")
     (auto simp add: contra_rows_def contradicted_def signal_def Let_def py_or_def dict_get_def
           py_ge_def split: sum.splits if_splits option.splits)

text \<open>
  C2 (as the code has it). Whenever the scorer returns, the breakdown is the Baseline row,
  a Local Registry Match row, an official-filing row (\<open>Official Filing Match\<close> or
  \<open>Regulator Suggested\<close>), then the optional URL and identifier rows, a Text Extracted
  row, and the optional social, anomaly and contradiction rows, each with its
  justification. The four unconditional rows are written also when they contribute zero
  or a negative amount. The URL row is written exactly when a URL signal is present, the
  identifier row exactly when some identifier is pattern-valid, the social row exactly
  when a social signal is present, the anomaly row exactly when an anomaly is flagged and
  the contradiction row exactly when the contradiction score is at least 2.
\<close>

theorem breakdown_rows:
  "score_from_signals s = Inr (t, rows) \<longrightarrow>
     (\<exists>r1 r2 r3 r4 r5 r6 r7 r8.
        rows = (''Baseline'', 50, ''Neutral baseline'') # r1 @ r2 @ r3 @ r4 @ r5 @ r6 @ r7 @ r8
        \<and> (r1 = [(''Local Registry Match'', 20, ''Found in data/lookup.json'')]
             \<or> r1 = [(''Local Registry Match'', 0, ''No curated match'')])
        \<and> (r2 = [(''Official Filing Match'', 30, ''Matched regulator/exchange via scraper'')]
             \<or> r2 = [(''Regulator Suggested'', 5, ''No exact match but regulators suggested'')]
             \<or> r2 = [(''Official Filing Match'', -5, ''Not found in official sources (light check)'')])
        \<and> (if url_present s
            then r3 = [(''URL Domain Official-ish'', 10,
                        ''Domain looks official (e.g., sebi/nse/bse/gleif/fda/cdsco)'')]
                 \<or> r3 = [(''URL Risk (VirusTotal)'', -40, ''Malicious indicators on domain'')]
                 \<or> r3 = [(''URL Scan Presence'', 2, ''URL was scanned / reachable'')]
            else r3 = [])
        \<and> (if ids_valid s
            then r4 = [(''Identifiers Valid'', 10,
                        ''Valid pattern(s): '' @ join '', ''
                          (valid_ids (case signal s ''identifiers'' of PDict d \<Rightarrow> d | _ \<Rightarrow> [])))]
            else r4 = [])
        \<and> (r5 = [(''Text Extracted'', 5, ''OCR/Text extracted successfully'')]
             \<or> r5 = [(''Text Extracted'', -3, ''No/low extractable text'')])
        \<and> (if social_present s
            then r6 = [(''Social Signal'', 5, ''Classified as legit'')]
                 \<or> r6 = [(''Social Signal'', -5, ''Classified as suspicious'')]
            else r6 = [])
        \<and> (if anomaly_flagged s
            then r7 = [(''Numeric Anomaly'', -12, ''Outlier vs history (demo rule)'')]
            else r7 = [])
        \<and> (if contradicted s
            then r8 = [(''Market Contradiction'', -8, ''Price/RSI contradicts positive claim'')]
            else r8 = []))"
proof
  assume "score_from_signals s = Inr (t, rows)"
  then obtain r1 r2 r3 r4 r5 r6 r7 r8 where
    b: "lookup_rows s = Inr r1" "official_rows s = Inr r2" "url_rows s = Inr r3"
       "identifier_rows s = Inr r4" "text_rows s = Inr r5" "social_rows s = Inr r6"
       "anomaly_rows s = Inr r7" "contra_rows s = Inr r8"
    and rows: "rows = (''Baseline'', 50, ''Neutral baseline'') # r1 @ r2 @ r3 @ r4 @ r5 @ r6 @ r7 @ r8"
    unfolding score_from_signals_Inr by blast
  show "\<exists>r1 r2 r3 r4 r5 r6 r7 r8.
        rows = (''Baseline'', 50, ''Neutral baseline'') # r1 @ r2 @ r3 @ r4 @ r5 @ r6 @ r7 @ r8
        \<and> (r1 = [(''Local Registry Match'', 20, ''Found in data/lookup.json'')]
             \<or> r1 = [(''Local Registry Match'', 0, ''No curated match'')])
        \<and> (r2 = [(''Official Filing Match'', 30, ''Matched regulator/exchange via scraper'')]
             \<or> r2 = [(''Regulator Suggested'', 5, ''No exact match but regulators suggested'')]
             \<or> r2 = [(''Official Filing Match'', -5, ''Not found in official sources (light check)'')])
        \<and> (if url_present s
            then r3 = [(''URL Domain Official-ish'', 10,
                        ''Domain looks official (e.g., sebi/nse/bse/gleif/fda/cdsco)'')]
                 \<or> r3 = [(''URL Risk (VirusTotal)'', -40, ''Malicious indicators on domain'')]
                 \<or> r3 = [(''URL Scan Presence'', 2, ''URL was scanned / reachable'')]
            else r3 = [])
        \<and> (if ids_valid s
            then r4 = [(''Identifiers Valid'', 10,
                        ''Valid pattern(s): '' @ join '', ''
                          (valid_ids (case signal s ''identifiers'' of PDict d \<Rightarrow> d | _ \<Rightarrow> [])))]
            else r4 = [])
        \<and> (r5 = [(''Text Extracted'', 5, ''OCR/Text extracted successfully'')]
             \<or> r5 = [(''Text Extracted'', -3, ''No/low extractable text'')])
        \<and> (if social_present s
            then r6 = [(''Social Signal'', 5, ''Classified as legit'')]
                 \<or> r6 = [(''Social Signal'', -5, ''Classified as suspicious'')]
            else r6 = [])
        \<and> (if anomaly_flagged s
            then r7 = [(''Numeric Anomaly'', -12, ''Outlier vs history (demo rule)'')]
            else r7 = [])
        \<and> (if contradicted s
            then r8 = [(''Market Contradiction'', -8, ''Price/RSI contradicts positive claim'')]
            else r8 = [])"
    apply (rule exI [of _ r1], rule exI [of _ r2], rule exI [of _ r3], rule exI [of _ r4])
    apply (rule exI [of _ r5], rule exI [of _ r6], rule exI [of _ r7], rule exI [of _ r8])
    apply (intro conjI)
            apply (rule rows)
           apply (rule lookup_rows_shape [OF b(1)])
          apply (rule official_rows_shape [OF b(2)])
         apply (rule url_rows_shape [OF b(3)])
        apply (rule identifier_rows_shape [OF b(4)])
       apply (rule text_rows_shape [OF b(5)])
      apply (rule social_rows_shape [OF b(6)])
     apply (rule anomaly_rows_shape [OF b(7)])
    apply (rule contra_rows_shape [OF b(8)])
    done
qed

text \<open>
  With no registry match, verdict \<open>unverified\<close>, no URL, no identifiers, no text and empty
  social, anomaly and contradiction signals the breakdown has four rows: none for the URL,
  the identifiers, the social signal, the anomaly or the contradiction.
\<close>

theorem breakdown_skips_absent_signals:
  "score_from_signals bare_signals
     = Inr (42, [(''Baseline'', 50, ''Neutral baseline''),
                 (''Local Registry Match'', 0, ''No curated match''),
                 (''Official Filing Match'', -5, ''Not found in official sources (light check)''),
                 (''Text Extracted'', -3, ''No/low extractable text'')])"
  by code_simp

theorem breakdown_rows_witness:
  "score_from_signals full_signals
     = Inr (25, [(''Baseline'', 50, ''Neutral baseline''),
                 (''Local Registry Match'', 20, ''Found in data/lookup.json''),
                 (''Regulator Suggested'', 5, ''No exact match but regulators suggested''),
                 (''URL Risk (VirusTotal)'', -40, ''Malicious indicators on domain''),
                 (''Identifiers Valid'', 10, ''Valid pattern(s): LEI''),
                 (''Text Extracted'', 5, ''OCR/Text extracted successfully''),
                 (''Social Signal'', -5, ''Classified as suspicious''),
                 (''Numeric Anomaly'', -12, ''Outlier vs history (demo rule)''),
                 (''Market Contradiction'', -8, ''Price/RSI contradicts positive claim'')])
   \<and> url_present full_signals \<and> ids_valid full_signals \<and> social_present full_signals
   \<and> anomaly_flagged full_signals \<and> contradicted full_signals"
proof -
  have e: "score_from_signals full_signals
     = Inr (25, [(''Baseline'', 50, ''Neutral baseline''),
                 (''Local Registry Match'', 20, ''Found in data/lookup.json''),
                 (''Regulator Suggested'', 5, ''No exact match but regulators suggested''),
                 (''URL Risk (VirusTotal)'', -40, ''Malicious indicators on domain''),
                 (''Identifiers Valid'', 10, ''Valid pattern(s): LEI''),
                 (''Text Extracted'', 5, ''OCR/Text extracted successfully''),
                 (''Social Signal'', -5, ''Classified as suspicious''),
                 (''Numeric Anomaly'', -12, ''Outlier vs history (demo rule)''),
                 (''Market Contradiction'', -8, ''Price/RSI contradicts positive claim'')])"
    by code_simp
  have p: "url_present full_signals \<and> ids_valid full_signals \<and> social_present full_signals
           \<and> anomaly_flagged full_signals \<and> contradicted full_signals"
    by code_simp
  show ?thesis
    using e p breakdown_rows [of full_signals 25]
    by simp
qed

end
